theory Spec2Isabelle
  imports Main "HOL-Library.AList" "HOL-Library.Word"
begin

section \<open>Values\<close>

text \<open>
  Room ids, player ids and names are JavaScript strings that the server only compares,
  tests for emptiness and slices; they are \<open>string\<close>. The chat text is measured with
  \<open>.length\<close> and cut with \<open>.trim()\<close>, which both work on UTF-16 code units, so it is a
  list of 16-bit words. Stroke data (\<open>points\<close>, \<open>color\<close>, and \<open>size\<close>, here
  \<open>stroke_size\<close>) is never inspected by the server: \<open>json\<close> is the JSON text of such
  a value. Timestamps are the integers of \<open>Date.now()\<close>; every handler reads the clock
  from its argument \<open>now\<close>.
\<close>

type_synonym json = string
type_synonym code_unit = "16 word"
type_synonym js_string = "code_unit list"

text \<open>\<open>x || d\<close> on a possibly absent string: the empty string is falsy too.\<close>

definition str_or :: "string option \<Rightarrow> string \<Rightarrow> string" where
  "str_or x d = (case x of None \<Rightarrow> d | Some v \<Rightarrow> if v = [] then d else v)"

text \<open>\<open>x || d\<close> on a possibly absent number: zero is falsy too.\<close>

definition num_or :: "int option \<Rightarrow> int \<Rightarrow> int" where
  "num_or x d = (case x of None \<Rightarrow> d | Some v \<Rightarrow> if v = 0 then d else v)"

text \<open>
  White space and line terminators, as \<open>String.prototype.trim\<close> strips them.
\<close>

definition js_white :: "code_unit \<Rightarrow> bool" where
  "js_white c \<longleftrightarrow>
     c \<in> {0x0009, 0x000A, 0x000B, 0x000C, 0x000D, 0x0020, 0x00A0, 0x1680,
          0x2000, 0x2001, 0x2002, 0x2003, 0x2004, 0x2005, 0x2006, 0x2007,
          0x2008, 0x2009, 0x200A, 0x2028, 0x2029, 0x202F, 0x205F, 0x3000, 0xFEFF}"

definition trim :: "js_string \<Rightarrow> js_string" where
  "trim t = rev (dropWhile js_white (rev (dropWhile js_white t)))"

section \<open>The persisted relations (database module)\<close>

text \<open>
  The four tables, each a list of rows in rowid order. \<open>max_players\<close> is a head count
  and \<open>is_custom\<close> the integer flag the code compares with 1. The three
  \<open>AUTOINCREMENT\<close> keys are counters that never go back.
\<close>

record room_row =
  room_id :: string
  room_name :: string
  created_at :: int
  max_players :: nat
  is_custom :: nat

record chat_row =
  cm_id :: nat
  cm_room_id :: string
  cm_player_id :: string
  cm_player_name :: string
  cm_message :: js_string
  cm_timestamp :: int

record draw_data =
  points :: json
  color :: json
  stroke_size :: json
  tool :: string

record drawing_row =
  de_id :: nat
  de_room_id :: string
  de_player_id :: string
  de_event_type :: string
  de_event_data :: draw_data
  de_timestamp :: int

record snapshot_row =
  cs_id :: nat
  cs_room_id :: string
  cs_snapshot_data :: string
  cs_timestamp :: int

record database =
  rooms :: "room_row list"
  chat_messages :: "chat_row list"
  drawing_events :: "drawing_row list"
  canvas_snapshots :: "snapshot_row list"
  chat_seq :: nat
  drawing_seq :: nat
  snapshot_seq :: nat

definition empty_db :: database where
  "empty_db = \<lparr>rooms = [], chat_messages = [], drawing_events = [], canvas_snapshots = [],
     chat_seq = 0, drawing_seq = 0, snapshot_seq = 0\<rparr>"

text \<open>The objects the read functions hand back.\<close>

record chat_message =
  msg_playerId :: string
  msg_playerName :: string
  msg_text :: js_string
  msg_timestamp :: int

record draw_event =
  ev_playerId :: string
  ev_type :: string
  ev_data :: draw_data
  ev_timestamp :: int

record snapshot =
  snapshotData :: string
  snap_timestamp :: int

subsection \<open>Rooms\<close>

text \<open>\<open>INSERT OR REPLACE\<close> on the primary key: the old row goes, the new one is added.\<close>

definition db_createRoom :: "int \<Rightarrow> string \<Rightarrow> string \<Rightarrow> bool \<Rightarrow> database \<Rightarrow> database" where
  "db_createRoom now rid nm isCustom d =
     d\<lparr>rooms := filter (\<lambda>r. room_id r \<noteq> rid) (rooms d) @
        [\<lparr>room_id = rid, room_name = nm, created_at = now, max_players = 4,
          is_custom = (if isCustom then 1 else 0)\<rparr>]\<rparr>"

definition db_getRoom :: "database \<Rightarrow> string \<Rightarrow> room_row option" where
  "db_getRoom d rid = find (\<lambda>r. room_id r = rid) (rooms d)"

definition db_deleteRoom :: "string \<Rightarrow> database \<Rightarrow> database" where
  "db_deleteRoom rid d =
     d\<lparr>chat_messages := filter (\<lambda>r. cm_room_id r \<noteq> rid) (chat_messages d),
       drawing_events := filter (\<lambda>r. de_room_id r \<noteq> rid) (drawing_events d),
       canvas_snapshots := filter (\<lambda>r. cs_room_id r \<noteq> rid) (canvas_snapshots d),
       rooms := filter (\<lambda>r. room_id r \<noteq> rid) (rooms d)\<rparr>"

subsection \<open>Chat messages\<close>

definition db_addChatMessage ::
  "string \<Rightarrow> string \<Rightarrow> string \<Rightarrow> js_string \<Rightarrow> int \<Rightarrow> database \<Rightarrow> database" where
  "db_addChatMessage rid pid pname msg ts d =
     d\<lparr>chat_messages := chat_messages d @
        [\<lparr>cm_id = Suc (chat_seq d), cm_room_id = rid, cm_player_id = pid,
          cm_player_name = pname, cm_message = msg, cm_timestamp = ts\<rparr>],
       chat_seq := Suc (chat_seq d)\<rparr>"

definition chat_of_row :: "chat_row \<Rightarrow> chat_message" where
  "chat_of_row r = \<lparr>msg_playerId = cm_player_id r, msg_playerName = cm_player_name r,
     msg_text = cm_message r, msg_timestamp = cm_timestamp r\<rparr>"

text \<open>
  \<open>ORDER BY timestamp DESC LIMIT ?\<close>, then \<open>results.reverse()\<close>. The query orders by the
  timestamp alone; rows with equal timestamps stay in the order the scan yields them,
  which is rowid order (a stable sort of the table).
\<close>

definition chat_rows_desc :: "database \<Rightarrow> string \<Rightarrow> nat \<Rightarrow> chat_row list" where
  "chat_rows_desc d rid limit =
     take limit (sort_key (\<lambda>r. - cm_timestamp r)
       (filter (\<lambda>r. cm_room_id r = rid) (chat_messages d)))"

definition db_getChatHistory :: "database \<Rightarrow> string \<Rightarrow> nat \<Rightarrow> chat_message list" where
  "db_getChatHistory d rid limit = map chat_of_row (rev (chat_rows_desc d rid limit))"

subsection \<open>Drawing events\<close>

definition db_addDrawingEvent ::
  "string \<Rightarrow> string \<Rightarrow> string \<Rightarrow> draw_data \<Rightarrow> int \<Rightarrow> database \<Rightarrow> database" where
  "db_addDrawingEvent rid pid etype edata ts d =
     d\<lparr>drawing_events := drawing_events d @
        [\<lparr>de_id = Suc (drawing_seq d), de_room_id = rid, de_player_id = pid,
          de_event_type = etype, de_event_data = edata, de_timestamp = ts\<rparr>],
       drawing_seq := Suc (drawing_seq d)\<rparr>"

definition event_of_row :: "drawing_row \<Rightarrow> draw_event" where
  "event_of_row r = \<lparr>ev_playerId = de_player_id r, ev_type = de_event_type r,
     ev_data = de_event_data r, ev_timestamp = de_timestamp r\<rparr>"

text \<open>\<open>WHERE room_id = ? AND timestamp > ? ORDER BY timestamp ASC\<close>.\<close>

definition drawing_rows_since :: "database \<Rightarrow> string \<Rightarrow> int \<Rightarrow> drawing_row list" where
  "drawing_rows_since d rid since =
     sort_key de_timestamp
       (filter (\<lambda>r. de_room_id r = rid \<and> de_timestamp r > since) (drawing_events d))"

definition db_getDrawingEvents :: "database \<Rightarrow> string \<Rightarrow> int \<Rightarrow> draw_event list" where
  "db_getDrawingEvents d rid since = map event_of_row (drawing_rows_since d rid since)"

definition db_clearDrawingEvents :: "string \<Rightarrow> database \<Rightarrow> database" where
  "db_clearDrawingEvents rid d =
     d\<lparr>drawing_events := filter (\<lambda>r. de_room_id r \<noteq> rid) (drawing_events d)\<rparr>"

subsection \<open>Canvas snapshots\<close>

definition db_saveCanvasSnapshot :: "string \<Rightarrow> string \<Rightarrow> int \<Rightarrow> database \<Rightarrow> database" where
  "db_saveCanvasSnapshot rid sdata ts d =
     d\<lparr>canvas_snapshots := filter (\<lambda>r. cs_room_id r \<noteq> rid) (canvas_snapshots d) @
        [\<lparr>cs_id = Suc (snapshot_seq d), cs_room_id = rid, cs_snapshot_data = sdata,
          cs_timestamp = ts\<rparr>],
       snapshot_seq := Suc (snapshot_seq d)\<rparr>"

text \<open>\<open>ORDER BY timestamp DESC LIMIT 1\<close>.\<close>

definition db_getCanvasSnapshot :: "database \<Rightarrow> string \<Rightarrow> snapshot option" where
  "db_getCanvasSnapshot d rid =
     (case sort_key (\<lambda>r. - cs_timestamp r)
             (filter (\<lambda>r. cs_room_id r = rid) (canvas_snapshots d)) of
        [] \<Rightarrow> None
      | r # _ \<Rightarrow> Some \<lparr>snapshotData = cs_snapshot_data r, snap_timestamp = cs_timestamp r\<rparr>)"

definition db_clearCanvasSnapshot :: "string \<Rightarrow> database \<Rightarrow> database" where
  "db_clearCanvasSnapshot rid d =
     d\<lparr>canvas_snapshots := filter (\<lambda>r. cs_room_id r \<noteq> rid) (canvas_snapshots d)\<rparr>"

subsection \<open>Cleanup\<close>

text \<open>
  \<open>cutoff = Date.now() - maxAgeMs\<close>. Chat rows go by age alone; a drawing row goes when
  it is older than the cutoff and its room is among the rooms of the snapshots newer
  than the cutoff.
\<close>

definition rooms_with_newer_snapshot :: "database \<Rightarrow> int \<Rightarrow> string list" where
  "rooms_with_newer_snapshot d cutoff =
     map cs_room_id (filter (\<lambda>r. cs_timestamp r > cutoff) (canvas_snapshots d))"

definition cleanup_deletes :: "database \<Rightarrow> int \<Rightarrow> drawing_row \<Rightarrow> bool" where
  "cleanup_deletes d cutoff r \<longleftrightarrow>
     de_timestamp r < cutoff \<and> de_room_id r \<in> set (rooms_with_newer_snapshot d cutoff)"

definition cleanupOldData :: "int \<Rightarrow> int \<Rightarrow> database \<Rightarrow> database" where
  "cleanupOldData now maxAgeMs d =
     (let cutoff = now - maxAgeMs in
      d\<lparr>chat_messages := filter (\<lambda>r. \<not> cm_timestamp r < cutoff) (chat_messages d),
        drawing_events := filter (\<lambda>r. \<not> cleanup_deletes d cutoff r) (drawing_events d)\<rparr>)"

section \<open>The room manager\<close>

text \<open>
  \<open>activeRooms\<close> and each room's \<open>players\<close> are JavaScript Maps: association lists in
  insertion order, where \<open>set\<close> on a present key replaces the value in place. Built from
  the empty list by \<open>AList.update\<close> and \<open>AList.delete\<close>, such a list has each key once, so
  the \<open>size\<close> of the Map is its length. A player carries the handle of its socket; which
  sockets are \<open>OPEN\<close> is part of the state.
\<close>

record player =
  pl_playerId :: string
  pl_playerName :: string
  pl_ws :: nat
  isDrawing :: bool

record active_room =
  players :: "(string \<times> player) list"
  drawingEventsCache :: "draw_event list"
  lastActivity :: int

record server_state =
  db :: database
  activeRooms :: "(string \<times> active_room) list"
  open_ws :: "nat set"

record room_info =
  info_id :: string
  info_name :: string
  playerCount :: nat
  maxPlayers :: nat
  isCustom :: bool

record player_info =
  pi_playerId :: string
  pi_playerName :: string
  pi_isDrawing :: bool

record room_state =
  rs_roomId :: string
  rs_roomName :: string
  activePlayers :: "player_info list"
  chatHistory :: "chat_message list"
  drawingEvents :: "draw_event list"
  canvasSnapshot :: "string option"

definition MAX_PLAYERS_PER_ROOM :: nat where "MAX_PLAYERS_PER_ROOM = 4"
definition MAX_CHAT_HISTORY :: nat where "MAX_CHAT_HISTORY = 50"
definition MAX_DRAWING_EVENTS_MEMORY :: nat where "MAX_DRAWING_EVENTS_MEMORY = 500"

definition init_state :: server_state where
  "init_state = \<lparr>db = empty_db, activeRooms = [], open_ws = {}\<rparr>"

text \<open>\<open>room.max_players || this.MAX_PLAYERS_PER_ROOM\<close>\<close>

definition room_capacity :: "room_row \<Rightarrow> nat" where
  "room_capacity room = (if max_players room = 0 then MAX_PLAYERS_PER_ROOM else max_players room)"

definition roomExists :: "server_state \<Rightarrow> string \<Rightarrow> bool" where
  "roomExists s rid \<longleftrightarrow> db_getRoom (db s) rid \<noteq> None"

definition getActivePlayerCount :: "server_state \<Rightarrow> string \<Rightarrow> nat" where
  "getActivePlayerCount s rid =
     (case map_of (activeRooms s) rid of None \<Rightarrow> 0 | Some a \<Rightarrow> length (players a))"

definition getRoomInfo :: "server_state \<Rightarrow> string \<Rightarrow> room_info option" where
  "getRoomInfo s rid =
     (case db_getRoom (db s) rid of
        None \<Rightarrow> None
      | Some room \<Rightarrow> Some \<lparr>info_id = room_id room, info_name = room_name room,
          playerCount = getActivePlayerCount s rid, maxPlayers = room_capacity room,
          isCustom = (is_custom room = 1)\<rparr>)"

definition createRoom ::
  "int \<Rightarrow> string \<Rightarrow> string \<Rightarrow> bool \<Rightarrow> server_state \<Rightarrow> room_info option \<times> server_state" where
  "createRoom now nm rid custom s =
     (let s1 = s\<lparr>db := db_createRoom now rid nm custom (db s)\<rparr> in (getRoomInfo s1 rid, s1))"

text \<open>The room object is shared and mutated in place: \<open>put_active\<close> writes it back.\<close>

definition put_active :: "string \<Rightarrow> active_room \<Rightarrow> server_state \<Rightarrow> server_state" where
  "put_active rid a s = s\<lparr>activeRooms := AList.update rid a (activeRooms s)\<rparr>"

definition getActiveRoom :: "int \<Rightarrow> string \<Rightarrow> server_state \<Rightarrow> active_room \<times> server_state" where
  "getActiveRoom now rid s =
     (case map_of (activeRooms s) rid of
        Some a \<Rightarrow> (a, s)
      | None \<Rightarrow>
          (let a = \<lparr>players = [], drawingEventsCache = [], lastActivity = now\<rparr>
           in (a, put_active rid a s)))"

definition addPlayer :: "int \<Rightarrow> string \<Rightarrow> player \<Rightarrow> server_state \<Rightarrow> bool \<times> server_state" where
  "addPlayer now rid p s =
     (case db_getRoom (db s) rid of
        None \<Rightarrow> (False, s)
      | Some room \<Rightarrow>
          (case getActiveRoom now rid s of (a, s1) \<Rightarrow>
             if length (players a) \<ge> room_capacity room then (False, s1)
             else (True, put_active rid
                     (a\<lparr>players := AList.update (pl_playerId p) p (players a),
                        lastActivity := now\<rparr>) s1)))"

definition removePlayer :: "int \<Rightarrow> string \<Rightarrow> string \<Rightarrow> server_state \<Rightarrow> bool \<times> server_state" where
  "removePlayer now rid pid s =
     (case map_of (activeRooms s) rid of
        None \<Rightarrow> (False, s)
      | Some a \<Rightarrow>
          (let removed = (pid \<in> set (map fst (players a)));
               a1 = a\<lparr>players := AList.delete pid (players a)\<rparr>;
               a2 = (if removed \<and> players a1 = [] then
                       (case db_getRoom (db s) rid of
                          None \<Rightarrow> a1
                        | Some room \<Rightarrow> if is_custom room = 1 then a1\<lparr>lastActivity := now\<rparr> else a1)
                     else a1)
           in (removed, put_active rid a2 s)))"

definition getPlayersInRoom :: "server_state \<Rightarrow> string \<Rightarrow> player list" where
  "getPlayersInRoom s rid =
     (case map_of (activeRooms s) rid of None \<Rightarrow> [] | Some a \<Rightarrow> map snd (players a))"

definition info_of_player :: "player \<Rightarrow> player_info" where
  "info_of_player p = \<lparr>pi_playerId = pl_playerId p, pi_playerName = pl_playerName p,
     pi_isDrawing = isDrawing p\<rparr>"

definition getRoomState :: "int \<Rightarrow> string \<Rightarrow> server_state \<Rightarrow> room_state option \<times> server_state" where
  "getRoomState now rid s =
     (case db_getRoom (db s) rid of
        None \<Rightarrow> (None, s)
      | Some room \<Rightarrow>
          (case getActiveRoom now rid s of (a, s1) \<Rightarrow>
             (let snap = db_getCanvasSnapshot (db s1) rid;
                  evs = (case snap of
                           Some sn \<Rightarrow> db_getDrawingEvents (db s1) rid (snap_timestamp sn)
                         | None \<Rightarrow> db_getDrawingEvents (db s1) rid 0)
              in (Some \<lparr>rs_roomId = room_id room, rs_roomName = room_name room,
                    activePlayers = map info_of_player (map snd (players a)),
                    chatHistory = db_getChatHistory (db s1) rid MAX_CHAT_HISTORY,
                    drawingEvents = evs,
                    canvasSnapshot = map_option snapshotData snap\<rparr>, s1))))"

definition touch :: "int \<Rightarrow> string \<Rightarrow> server_state \<Rightarrow> server_state" where
  "touch now rid s =
     (case map_of (activeRooms s) rid of
        None \<Rightarrow> s
      | Some a \<Rightarrow> put_active rid (a\<lparr>lastActivity := now\<rparr>) s)"

definition addChatMessage :: "int \<Rightarrow> string \<Rightarrow> chat_message \<Rightarrow> server_state \<Rightarrow> server_state" where
  "addChatMessage now rid m s =
     touch now rid
       (s\<lparr>db := db_addChatMessage rid (msg_playerId m) (msg_playerName m) (msg_text m)
                 (msg_timestamp m) (db s)\<rparr>)"

definition getChatHistory :: "server_state \<Rightarrow> string \<Rightarrow> chat_message list" where
  "getChatHistory s rid = db_getChatHistory (db s) rid MAX_CHAT_HISTORY"

text \<open>\<open>event.type || 'draw'\<close>, and the cache cut to its last 500 entries.\<close>

definition addDrawingEvent :: "int \<Rightarrow> string \<Rightarrow> draw_event \<Rightarrow> server_state \<Rightarrow> server_state" where
  "addDrawingEvent now rid e s =
     (let s1 = s\<lparr>db := db_addDrawingEvent rid (ev_playerId e)
                         (if ev_type e = [] then ''draw'' else ev_type e)
                         (ev_data e) (ev_timestamp e) (db s)\<rparr>
      in case getActiveRoom now rid s1 of (a, s2) \<Rightarrow>
           (let cache = drawingEventsCache a @ [e];
                cache' = (if length cache > MAX_DRAWING_EVENTS_MEMORY
                          then drop (length cache - MAX_DRAWING_EVENTS_MEMORY) cache
                          else cache)
            in put_active rid (a\<lparr>drawingEventsCache := cache', lastActivity := now\<rparr>) s2))"

definition clearCanvas :: "int \<Rightarrow> string \<Rightarrow> server_state \<Rightarrow> server_state" where
  "clearCanvas now rid s =
     (let s1 = s\<lparr>db := db_clearCanvasSnapshot rid (db_clearDrawingEvents rid (db s))\<rparr>
      in case map_of (activeRooms s1) rid of
           None \<Rightarrow> s1
         | Some a \<Rightarrow> put_active rid (a\<lparr>drawingEventsCache := [], lastActivity := now\<rparr>) s1)"

definition saveCanvasSnapshot :: "int \<Rightarrow> string \<Rightarrow> string \<Rightarrow> server_state \<Rightarrow> server_state" where
  "saveCanvasSnapshot now rid sdata s =
     (let s1 = s\<lparr>db := db_saveCanvasSnapshot rid sdata now (db s)\<rparr>
      in case map_of (activeRooms s1) rid of
           None \<Rightarrow> s1
         | Some a \<Rightarrow> put_active rid (a\<lparr>drawingEventsCache := []\<rparr>) s1)"

definition setPlayerDrawing :: "string \<Rightarrow> string \<Rightarrow> bool \<Rightarrow> server_state \<Rightarrow> server_state" where
  "setPlayerDrawing rid pid b s =
     (case map_of (activeRooms s) rid of
        None \<Rightarrow> s
      | Some a \<Rightarrow>
          (case map_of (players a) pid of
             None \<Rightarrow> s
           | Some p \<Rightarrow>
               put_active rid (a\<lparr>players := AList.update pid (p\<lparr>isDrawing := b\<rparr>) (players a)\<rparr>) s))"

definition deleteRoom :: "string \<Rightarrow> server_state \<Rightarrow> bool \<times> server_state" where
  "deleteRoom rid s =
     (case db_getRoom (db s) rid of
        None \<Rightarrow> (False, s)
      | Some room \<Rightarrow>
          if is_custom room \<noteq> 1 then (False, s)
          else (True, s\<lparr>db := db_deleteRoom rid (db s),
                        activeRooms := AList.delete rid (activeRooms s)\<rparr>))"

text \<open>
  \<open>activeRooms.forEach\<close>: each visit can delete only the entry it is visiting, so the
  loop runs over the entries the Map had at the start.
\<close>

fun cleanup_loop :: "int \<Rightarrow> int \<Rightarrow> (string \<times> active_room) list \<Rightarrow> server_state \<Rightarrow> server_state" where
  "cleanup_loop now maxInactiveMs [] s = s"
| "cleanup_loop now maxInactiveMs ((rid, a) # rest) s =
     cleanup_loop now maxInactiveMs rest
       (if players a = [] \<and> now - lastActivity a > maxInactiveMs then
          (case db_getRoom (db s) rid of
             None \<Rightarrow> s
           | Some room \<Rightarrow> if is_custom room = 1 then snd (deleteRoom rid s) else s)
        else s)"

definition cleanupInactiveRooms :: "int \<Rightarrow> int \<Rightarrow> server_state \<Rightarrow> server_state" where
  "cleanupInactiveRooms now maxInactiveMs s = cleanup_loop now maxInactiveMs (activeRooms s) s"

section \<open>The server: one connection's handlers\<close>

text \<open>
  The wire messages. Fields the client may leave out are options; \<open>roomId\<close>, and the
  identity a \<open>rejoin\<close> carries, are strings (possibly empty). A buffered event of a
  \<open>queueReplay\<close> is a stroke, a chat line (whose text may be missing) or something else;
  \<open>events\<close> is \<open>None\<close> when it is not an array.
\<close>

datatype queued_event =
    QDraw json json json "string option" "int option"
  | QMessage "js_string option" "int option"
  | QOther string

datatype client_message =
    Join string "string option" "string option"
  | Rejoin string string string "int option"
  | Draw json json json "string option"
  | Clear
  | Message "js_string option"
  | DrawStart
  | DrawEnd
  | CanvasSnapshot "string option"
  | QueueReplay "queued_event list option"
  | Unknown string

datatype server_message =
    ErrorMsg string
  | RoomStateMsg "room_state option" string string
  | RejoinStateMsg room_state "draw_event list" string string
  | UserJoined string string bool int
  | UserLeft string string int
  | DrawMsg draw_event
  | ClearMsg string string int
  | ChatMsg chat_message
  | DrawIndicator bool string string

text \<open>What the handlers send: the socket and the message, in order.\<close>

type_synonym sends = "(nat \<times> server_message) list"

text \<open>The variables of one connection's closure, \<open>null\<close> until a join assigns them.\<close>

record conn =
  conn_ws :: nat
  playerId :: "string option"
  playerName :: "string option"
  currentRoomId :: "string option"

definition new_conn :: "nat \<Rightarrow> conn" where
  "new_conn w = \<lparr>conn_ws = w, playerId = None, playerName = None, currentRoomId = None\<rparr>"

text \<open>
  The guard \<open>if (!currentRoomId || !playerId) return\<close>: what passes it is a non-empty
  room id and player id. \<open>playerName\<close> is assigned wherever \<open>playerId\<close> is, so it is a
  string whenever the guard passes.
\<close>

definition attached :: "conn \<Rightarrow> (string \<times> string \<times> string) option" where
  "attached c =
     (case (currentRoomId c, playerId c, playerName c) of
        (Some rid, Some pid, Some pname) \<Rightarrow>
          if rid = [] \<or> pid = [] then None else Some (rid, pid, pname)
      | _ \<Rightarrow> None)"

definition broadcastToRoom ::
  "server_state \<Rightarrow> string \<Rightarrow> server_message \<Rightarrow> string option \<Rightarrow> sends" where
  "broadcastToRoom s rid m excludePlayerId =
     map (\<lambda>p. (pl_ws p, m))
       (filter (\<lambda>p. Some (pl_playerId p) \<noteq> excludePlayerId \<and> pl_ws p \<in> open_ws s)
          (getPlayersInRoom s rid))"

definition handleJoin ::
  "int \<Rightarrow> string \<Rightarrow> conn \<Rightarrow> string \<Rightarrow> string option \<Rightarrow> string option \<Rightarrow> server_state
     \<Rightarrow> conn \<times> server_state \<times> sends" where
  "handleJoin now uuid c rid pid pname s =
     (let playerId' = str_or pid uuid;
          playerName' = str_or pname (''Player '' @ take 4 playerId');
          c' = c\<lparr>playerId := Some playerId', playerName := Some playerName',
                 currentRoomId := Some rid\<rparr>
      in if \<not> roomExists s rid then
           (c', s, [(conn_ws c, ErrorMsg ''Room does not exist'')])
         else
           (case addPlayer now rid
                   \<lparr>pl_playerId = playerId', pl_playerName = playerName',
                    pl_ws = conn_ws c, isDrawing = False\<rparr> s of
              (added, s1) \<Rightarrow>
                if \<not> added then (c', s1, [(conn_ws c, ErrorMsg ''Room is full'')])
                else
                  (case getRoomState now rid s1 of
                     (rs, s2) \<Rightarrow>
                       (c', s2,
                        (conn_ws c, RoomStateMsg rs playerId' playerName') #
                        broadcastToRoom s2 rid (UserJoined playerId' playerName' False now)
                          (Some playerId')))))"

text \<open>
  \<open>missedEvents\<close> is a filter of the \<open>drawingEvents\<close> of the room state, taken only when
  \<open>lastEventTimestamp\<close> is truthy. A missing room state cannot be read: the exception
  ends in the \<open>catch\<close> of the message listener.
\<close>

definition missedEvents :: "int option \<Rightarrow> draw_event list \<Rightarrow> draw_event list" where
  "missedEvents lastEventTimestamp evs =
     (case lastEventTimestamp of
        None \<Rightarrow> []
      | Some t \<Rightarrow> if t = 0 then [] else filter (\<lambda>e. ev_timestamp e > t) evs)"

definition handleRejoin ::
  "int \<Rightarrow> conn \<Rightarrow> string \<Rightarrow> string \<Rightarrow> string \<Rightarrow> int option \<Rightarrow> server_state
     \<Rightarrow> conn \<times> server_state \<times> sends" where
  "handleRejoin now c rid pid pname lastEventTimestamp s =
     (let c' = c\<lparr>playerId := Some pid, playerName := Some pname, currentRoomId := Some rid\<rparr>
      in if \<not> roomExists s rid then
           (c', s, [(conn_ws c, ErrorMsg ''Room no longer exists'')])
         else
           (case addPlayer now rid
                   \<lparr>pl_playerId = pid, pl_playerName = pname,
                    pl_ws = conn_ws c, isDrawing = False\<rparr> s of
              (added, s1) \<Rightarrow>
                if \<not> added then (c', s1, [(conn_ws c, ErrorMsg ''Room is full'')])
                else
                  (case getRoomState now rid s1 of
                     (None, s2) \<Rightarrow> (c', s2, [(conn_ws c, ErrorMsg ''Invalid message format'')])
                   | (Some rs, s2) \<Rightarrow>
                       (c', s2,
                        (conn_ws c,
                         RejoinStateMsg rs (missedEvents lastEventTimestamp (drawingEvents rs))
                           pid pname) #
                        broadcastToRoom s2 rid (UserJoined pid pname True now) (Some pid)))))"

definition handleDraw ::
  "int \<Rightarrow> conn \<Rightarrow> json \<Rightarrow> json \<Rightarrow> json \<Rightarrow> string option \<Rightarrow> server_state
     \<Rightarrow> conn \<times> server_state \<times> sends" where
  "handleDraw now c pts col sz tool_opt s =
     (case attached c of
        None \<Rightarrow> (c, s, [])
      | Some (rid, pid, pname) \<Rightarrow>
          (let drawEvent = \<lparr>ev_playerId = pid, ev_type = ''draw'',
                 ev_data = \<lparr>points = pts, color = col, stroke_size = sz,
                            tool = str_or tool_opt ''pen''\<rparr>,
                 ev_timestamp = now\<rparr>;
               s1 = addDrawingEvent now rid drawEvent s
           in (c, s1, broadcastToRoom s1 rid (DrawMsg drawEvent) (Some pid))))"

definition handleClear :: "int \<Rightarrow> conn \<Rightarrow> server_state \<Rightarrow> conn \<times> server_state \<times> sends" where
  "handleClear now c s =
     (case attached c of
        None \<Rightarrow> (c, s, [])
      | Some (rid, pid, pname) \<Rightarrow>
          (let s1 = clearCanvas now rid s
           in (c, s1, broadcastToRoom s1 rid (ClearMsg pid pname now) None)))"

text \<open>
  \<open>if (!text || text.trim().length === 0) return; if (text.length > 140) return;\<close>
\<close>

definition chat_text_ok :: "js_string option \<Rightarrow> bool" where
  "chat_text_ok text \<longleftrightarrow>
     (case text of
        None \<Rightarrow> False
      | Some t \<Rightarrow> t \<noteq> [] \<and> length (trim t) \<noteq> 0 \<and> \<not> length t > 140)"

definition handleChatMessage ::
  "int \<Rightarrow> conn \<Rightarrow> js_string option \<Rightarrow> server_state \<Rightarrow> conn \<times> server_state \<times> sends" where
  "handleChatMessage now c text s =
     (case attached c of
        None \<Rightarrow> (c, s, [])
      | Some (rid, pid, pname) \<Rightarrow>
          (case text of
             None \<Rightarrow> (c, s, [])
           | Some t \<Rightarrow>
               if t = [] \<or> length (trim t) = 0 then (c, s, [])
               else if length t > 140 then (c, s, [])
               else
                 (let chatMessage = \<lparr>msg_playerId = pid, msg_playerName = pname,
                        msg_text = trim t, msg_timestamp = now\<rparr>;
                      s1 = addChatMessage now rid chatMessage s
                  in (c, s1, broadcastToRoom s1 rid (ChatMsg chatMessage) None))))"

definition handleDrawIndicator ::
  "conn \<Rightarrow> bool \<Rightarrow> server_state \<Rightarrow> conn \<times> server_state \<times> sends" where
  "handleDrawIndicator c b s =
     (case attached c of
        None \<Rightarrow> (c, s, [])
      | Some (rid, pid, pname) \<Rightarrow>
          (let s1 = setPlayerDrawing rid pid b s
           in (c, s1, broadcastToRoom s1 rid (DrawIndicator b pid pname) (Some pid))))"

definition handleCanvasSnapshot ::
  "int \<Rightarrow> conn \<Rightarrow> string option \<Rightarrow> server_state \<Rightarrow> conn \<times> server_state \<times> sends" where
  "handleCanvasSnapshot now c sdata s =
     (case attached c of
        None \<Rightarrow> (c, s, [])
      | Some (rid, pid, pname) \<Rightarrow>
          (case sdata of
             None \<Rightarrow> (c, s, [])
           | Some d \<Rightarrow> if d = [] then (c, s, []) else (c, saveCanvasSnapshot now rid d s, [])))"

text \<open>
  One turn of \<open>events.forEach\<close>: the state after it and what it sends. The text of a
  chat line goes to the insert unchecked. A missing text cannot be bound to the
  \<open>NOT NULL\<close> column: the insert throws before anything is written, and the turn has no
  result.
\<close>

fun replay_event ::
  "int \<Rightarrow> string \<Rightarrow> string \<Rightarrow> string \<Rightarrow> queued_event \<Rightarrow> server_state
     \<Rightarrow> (server_state \<times> sends) option" where
  "replay_event now rid pid pname (QDraw pts col sz tool_opt ts) s =
     (let drawEvent = \<lparr>ev_playerId = pid, ev_type = ''draw'',
            ev_data = \<lparr>points = pts, color = col, stroke_size = sz, tool = str_or tool_opt ''pen''\<rparr>,
            ev_timestamp = num_or ts now\<rparr>;
          s1 = addDrawingEvent now rid drawEvent s
      in Some (s1, broadcastToRoom s1 rid (DrawMsg drawEvent) (Some pid)))"
| "replay_event now rid pid pname (QMessage None ts) s = None"
| "replay_event now rid pid pname (QMessage (Some body) ts) s =
     (let chatMessage = \<lparr>msg_playerId = pid, msg_playerName = pname, msg_text = body,
            msg_timestamp = num_or ts now\<rparr>;
          s1 = addChatMessage now rid chatMessage s
      in Some (s1, broadcastToRoom s1 rid (ChatMsg chatMessage) None))"
| "replay_event now rid pid pname (QOther k) s = Some (s, [])"

text \<open>
  The loop: an exception ends it, with the turns before it done and the events after
  it untouched. The flag says that one was thrown.
\<close>

fun replay_events ::
  "int \<Rightarrow> string \<Rightarrow> string \<Rightarrow> string \<Rightarrow> queued_event list \<Rightarrow> server_state
     \<Rightarrow> server_state \<times> sends \<times> bool" where
  "replay_events now rid pid pname [] s = (s, [], False)"
| "replay_events now rid pid pname (e # es) s =
     (case replay_event now rid pid pname e s of
        None \<Rightarrow> (s, [], True)
      | Some (s1, out1) \<Rightarrow>
          (case replay_events now rid pid pname es s1 of
             (s2, out2, thrown) \<Rightarrow> (s2, out1 @ out2, thrown)))"

text \<open>
  An exception leaves the handler and is caught by the message listener, which sends
  the socket an error.
\<close>

definition handleQueueReplay ::
  "int \<Rightarrow> conn \<Rightarrow> queued_event list option \<Rightarrow> server_state \<Rightarrow> conn \<times> server_state \<times> sends" where
  "handleQueueReplay now c events s =
     (case attached c of
        None \<Rightarrow> (c, s, [])
      | Some (rid, pid, pname) \<Rightarrow>
          (case events of
             None \<Rightarrow> (c, s, [])
           | Some evs \<Rightarrow>
               (case replay_events now rid pid pname evs s of
                  (s1, out, thrown) \<Rightarrow>
                    (c, s1,
                     if thrown then out @ [(conn_ws c, ErrorMsg ''Invalid message format'')]
                     else out))))"

text \<open>The dispatch of the message listener; an unknown type is only logged.\<close>

fun handleMessage ::
  "int \<Rightarrow> string \<Rightarrow> conn \<Rightarrow> client_message \<Rightarrow> server_state \<Rightarrow> conn \<times> server_state \<times> sends" where
  "handleMessage now uuid c (Join rid pid pname) s = handleJoin now uuid c rid pid pname s"
| "handleMessage now uuid c (Rejoin rid pid pname t) s = handleRejoin now c rid pid pname t s"
| "handleMessage now uuid c (Draw pts col sz tool_opt) s = handleDraw now c pts col sz tool_opt s"
| "handleMessage now uuid c Clear s = handleClear now c s"
| "handleMessage now uuid c (Message text) s = handleChatMessage now c text s"
| "handleMessage now uuid c DrawStart s = handleDrawIndicator c True s"
| "handleMessage now uuid c DrawEnd s = handleDrawIndicator c False s"
| "handleMessage now uuid c (CanvasSnapshot d) s = handleCanvasSnapshot now c d s"
| "handleMessage now uuid c (QueueReplay evs) s = handleQueueReplay now c evs s"
| "handleMessage now uuid c (Unknown k) s = (c, s, [])"

text \<open>The \<open>close\<close> listener.\<close>

definition handleClose :: "int \<Rightarrow> conn \<Rightarrow> server_state \<Rightarrow> server_state \<times> sends" where
  "handleClose now c s =
     (case attached c of
        None \<Rightarrow> (s, [])
      | Some (rid, pid, pname) \<Rightarrow>
          (case removePlayer now rid pid s of
             (removed, s1) \<Rightarrow> (s1, broadcastToRoom s1 rid (UserLeft pid pname now) (Some pid))))"

subsection \<open>The room deletion endpoint and the hourly timer\<close>

datatype http_response = Success | Failure nat string

definition delete_room_endpoint :: "string \<Rightarrow> server_state \<Rightarrow> http_response \<times> server_state" where
  "delete_room_endpoint rid s =
     (case getRoomInfo s rid of
        None \<Rightarrow> (Failure 404 ''Room not found'', s)
      | Some roomInfo \<Rightarrow>
          if \<not> isCustom roomInfo then (Failure 403 ''Cannot delete default rooms'', s)
          else if playerCount roomInfo > 0 then
            (Failure 400 ''Cannot delete room with active players'', s)
          else (Success, snd (deleteRoom rid s)))"

definition hourly_cleanup :: "int \<Rightarrow> server_state \<Rightarrow> server_state" where
  "hourly_cleanup now s =
     (let s1 = cleanupInactiveRooms now (24 * 60 * 60 * 1000) s
      in s1\<lparr>db := cleanupOldData now (7 * 24 * 60 * 60 * 1000) (db s1)\<rparr>)"

section \<open>Runs and invariants\<close>

text \<open>
  A run of the connection registry: joins and leaves, each with the clock reading at
  which it happens.
\<close>

datatype registry_op = AddPlayer string player | RemovePlayer string string

fun apply_registry_op :: "server_state \<Rightarrow> int \<times> registry_op \<Rightarrow> server_state" where
  "apply_registry_op s (now, AddPlayer rid p) = snd (addPlayer now rid p s)"
| "apply_registry_op s (now, RemovePlayer rid pid) = snd (removePlayer now rid pid s)"

definition run_registry_ops :: "(int \<times> registry_op) list \<Rightarrow> server_state \<Rightarrow> server_state" where
  "run_registry_ops ops s = foldl apply_registry_op s ops"

text \<open>No room of the directory holds more players than its capacity.\<close>

definition capacity_ok :: "server_state \<Rightarrow> bool" where
  "capacity_ok s \<longleftrightarrow>
     (\<forall>rid \<in> set (map room_id (rooms (db s))).
        case db_getRoom (db s) rid of
          None \<Rightarrow> True
        | Some room \<Rightarrow> getActivePlayerCount s rid \<le> room_capacity room)"

text \<open>At most one stored snapshot per room.\<close>

definition snapshots_of :: "database \<Rightarrow> string \<Rightarrow> snapshot_row list" where
  "snapshots_of d rid = filter (\<lambda>r. cs_room_id r = rid) (canvas_snapshots d)"

definition one_snapshot_per_room :: "database \<Rightarrow> bool" where
  "one_snapshot_per_room d \<longleftrightarrow> distinct (map cs_room_id (canvas_snapshots d))"

text \<open>
  The timestamp \<open>getRoomState\<close> reads drawing events from: the snapshot's, or 0 without
  a snapshot.
\<close>

definition events_floor :: "database \<Rightarrow> string \<Rightarrow> int" where
  "events_floor d rid =
     (case db_getCanvasSnapshot d rid of None \<Rightarrow> 0 | Some sn \<Rightarrow> snap_timestamp sn)"

text \<open>The \<open>missedEvents\<close> field of the reply to a rejoin, when the reply is a \<open>rejoinState\<close>.\<close>

fun missed_of :: "server_message \<Rightarrow> draw_event list option" where
  "missed_of (RejoinStateMsg rs missed pid pname) = Some missed"
| "missed_of _ = None"

definition rejoin_missed :: "conn \<times> server_state \<times> sends \<Rightarrow> draw_event list option" where
  "rejoin_missed res =
     (case snd (snd res) of [] \<Rightarrow> None | (w, m) # rest \<Rightarrow> missed_of m)"

subsection \<open>Replaying a canvas\<close>






subsection \<open>Chat history\<close>

text \<open>The chat rows of a room, and the rows the \<open>LIMIT\<close> of the history query leaves out.\<close>

definition room_chat_rows :: "database \<Rightarrow> string \<Rightarrow> chat_row list" where
  "room_chat_rows d rid = filter (\<lambda>r. cm_room_id r = rid) (chat_messages d)"

definition chat_rows_omitted :: "database \<Rightarrow> string \<Rightarrow> nat \<Rightarrow> chat_row list" where
  "chat_rows_omitted d rid limit =
     drop limit (sort_key (\<lambda>r. - cm_timestamp r)
       (filter (\<lambda>r. cm_room_id r = rid) (chat_messages d)))"

subsection \<open>Queue replay\<close>

text \<open>
  The objects \<open>handleQueueReplay\<close> builds from a buffered event (\<open>drawEvent\<close>,
  \<open>chatMessage\<close>), what it sends for it, and a row seen as its room and its content.
\<close>

fun replay_draw_event :: "string \<Rightarrow> int \<Rightarrow> queued_event \<Rightarrow> draw_event option" where
  "replay_draw_event pid now (QDraw pts col sz tool_opt ts) =
     Some \<lparr>ev_playerId = pid, ev_type = ''draw'',
           ev_data = \<lparr>points = pts, color = col, stroke_size = sz, tool = str_or tool_opt ''pen''\<rparr>,
           ev_timestamp = num_or ts now\<rparr>"
| "replay_draw_event pid now _ = None"

fun replay_chat_message :: "string \<Rightarrow> string \<Rightarrow> int \<Rightarrow> queued_event \<Rightarrow> chat_message option" where
  "replay_chat_message pid pname now (QMessage (Some body) ts) =
     Some \<lparr>msg_playerId = pid, msg_playerName = pname, msg_text = body,
           msg_timestamp = num_or ts now\<rparr>"
| "replay_chat_message pid pname now _ = None"

definition replay_sends ::
  "server_state \<Rightarrow> string \<Rightarrow> string \<Rightarrow> string \<Rightarrow> int \<Rightarrow> queued_event \<Rightarrow> sends" where
  "replay_sends s rid pid pname now e =
     (case replay_draw_event pid now e of
        Some ev \<Rightarrow> broadcastToRoom s rid (DrawMsg ev) (Some pid)
      | None \<Rightarrow>
          (case replay_chat_message pid pname now e of
             Some m \<Rightarrow> broadcastToRoom s rid (ChatMsg m) None
           | None \<Rightarrow> []))"

text \<open>
  A chat line without its text, and the events of a list that come before the first
  such line: the ones the loop gets through.
\<close>

fun lacks_text :: "queued_event \<Rightarrow> bool" where
  "lacks_text (QMessage None ts) = True"
| "lacks_text _ = False"

definition replayed :: "queued_event list \<Rightarrow> queued_event list" where
  "replayed evs = takeWhile (\<lambda>e. \<not> lacks_text e) evs"

definition drawing_view :: "drawing_row \<Rightarrow> string \<times> draw_event" where
  "drawing_view r = (de_room_id r, event_of_row r)"

definition chat_view :: "chat_row \<Rightarrow> string \<times> chat_message" where
  "chat_view r = (cm_room_id r, chat_of_row r)"

subsection \<open>Rejected joins\<close>

text \<open>The player a join or rejoin message registers, and whether the room takes it.\<close>

fun joining_player :: "string \<Rightarrow> conn \<Rightarrow> client_message \<Rightarrow> (string \<times> player) option" where
  "joining_player uuid c (Join rid pid pname) =
     Some (rid, \<lparr>pl_playerId = str_or pid uuid,
                 pl_playerName = str_or pname (''Player '' @ take 4 (str_or pid uuid)),
                 pl_ws = conn_ws c, isDrawing = False\<rparr>)"
| "joining_player uuid c (Rejoin rid pid pname t) =
     Some (rid, \<lparr>pl_playerId = pid, pl_playerName = pname, pl_ws = conn_ws c, isDrawing = False\<rparr>)"
| "joining_player uuid c _ = None"

definition join_rejected :: "int \<Rightarrow> string \<Rightarrow> player \<Rightarrow> server_state \<Rightarrow> bool" where
  "join_rejected now rid p s \<longleftrightarrow> \<not> roomExists s rid \<or> \<not> fst (addPlayer now rid p s)"

section \<open>Example states\<close>

definition ex_player :: "string \<Rightarrow> nat \<Rightarrow> player" where
  "ex_player pid w =
     \<lparr>pl_playerId = pid, pl_playerName = ''Player '' @ pid, pl_ws = w, isDrawing = False\<rparr>"

definition ex_lobby :: server_state where
  "ex_lobby = \<lparr>db = db_createRoom 1000 ''chat-a'' ''Chat A'' False empty_db,
                 activeRooms = [], open_ws = {1, 2, 3, 4, 5}\<rparr>"

definition ex_joins :: "(int \<times> registry_op) list" where
  "ex_joins = [(1001, AddPlayer ''chat-a'' (ex_player ''a'' 1)),
               (1002, AddPlayer ''chat-a'' (ex_player ''b'' 2)),
               (1003, RemovePlayer ''chat-a'' ''a''),
               (1004, AddPlayer ''chat-a'' (ex_player ''c'' 3)),
               (1005, AddPlayer ''chat-a'' (ex_player ''d'' 4)),
               (1006, AddPlayer ''chat-a'' (ex_player ''a'' 1))]"

definition ex_stroke :: draw_data where
  "ex_stroke = \<lparr>points = ''[{x:1,y:2}]'', color = ''#000000'', stroke_size = ''3'', tool = ''pen''\<rparr>"

definition ex_old_row :: drawing_row where
  "ex_old_row = \<lparr>de_id = 1, de_room_id = ''chat-a'', de_player_id = ''a'',
     de_event_type = ''draw'', de_event_data = ex_stroke, de_timestamp = 5\<rparr>"

definition ex_compactable :: database where
  "ex_compactable = empty_db\<lparr>
     drawing_events := [ex_old_row],
     canvas_snapshots := [\<lparr>cs_id = 1, cs_room_id = ''chat-a'', cs_snapshot_data = ''png'',
                           cs_timestamp = 20\<rparr>]\<rparr>"

definition ex_row50 :: drawing_row where
  "ex_row50 = \<lparr>de_id = 1, de_room_id = ''chat-a'', de_player_id = ''a'',
     de_event_type = ''draw'', de_event_data = ex_stroke, de_timestamp = 50\<rparr>"

definition ex_row150 :: drawing_row where
  "ex_row150 = \<lparr>de_id = 2, de_room_id = ''chat-a'', de_player_id = ''a'',
     de_event_type = ''draw'', de_event_data = ex_stroke, de_timestamp = 150\<rparr>"

definition ex_canvas_state :: server_state where
  "ex_canvas_state =
     \<lparr>db = (db_createRoom 1000 ''chat-a'' ''Chat A'' False empty_db)\<lparr>
        drawing_events := [ex_row50, ex_row150],
        canvas_snapshots := [\<lparr>cs_id = 1, cs_room_id = ''chat-a'', cs_snapshot_data = ''png'',
                              cs_timestamp = 100\<rparr>],
        drawing_seq := 2, snapshot_seq := 1\<rparr>,
      activeRooms = [(''chat-a'',
        \<lparr>players = [(''a'', ex_player ''a'' 1), (''b'', ex_player ''b'' 2)],
         drawingEventsCache = [], lastActivity = 150\<rparr>)],
      open_ws = {1, 2, 3}\<rparr>"

definition ex_full_room :: server_state where
  "ex_full_room =
     \<lparr>db = db_createRoom 1000 ''chat-a'' ''Chat A'' False empty_db,
      activeRooms = [(''chat-a'',
        \<lparr>players = [(''b'', ex_player ''b'' 2), (''c'', ex_player ''c'' 3),
           (''d'', ex_player ''d'' 4), (''a'', ex_player ''a'' 1)],
         drawingEventsCache = [], lastActivity = 1006\<rparr>)],
      open_ws = {1, 2, 3, 4, 5}\<rparr>"

definition ex_padded :: js_string where
  "ex_padded = replicate 140 0x61 @ [0x20]"

definition ex_queued :: queued_event where
  "ex_queued = QDraw ''[{x:5,y:5}]'' ''#ff0000'' ''2'' None (Some 60)"

text \<open>
  A replay queue: a stroke, a chat line without a timestamp, an event of another kind,
  and the stroke once more.
\<close>

definition ex_queue :: "queued_event list" where
  "ex_queue = [ex_queued, QMessage (Some [0x68, 0x69]) None, QOther ''ping'', ex_queued]"

definition ex_stranger :: conn where
  "ex_stranger = \<lparr>conn_ws = 5, playerId = Some ''uuid-1'', playerName = Some ''Player uuid'',
                   currentRoomId = Some []\<rparr>"

definition ex_row_b :: drawing_row where
  "ex_row_b = \<lparr>de_id = 3, de_room_id = ''chat-b'', de_player_id = ''z'',
     de_event_type = ''draw'', de_event_data = ex_stroke, de_timestamp = 160\<rparr>"

definition ex_two_rooms :: server_state where
  "ex_two_rooms =
     \<lparr>db = (db_createRoom 1001 ''chat-b'' ''Chat B'' False
              (db_createRoom 1000 ''chat-a'' ''Chat A'' False empty_db))\<lparr>
        drawing_events := [ex_row50, ex_row150, ex_row_b],
        canvas_snapshots :=
          [\<lparr>cs_id = 1, cs_room_id = ''chat-a'', cs_snapshot_data = ''png'', cs_timestamp = 100\<rparr>,
           \<lparr>cs_id = 2, cs_room_id = ''chat-b'', cs_snapshot_data = ''png'', cs_timestamp = 155\<rparr>],
        drawing_seq := 3, snapshot_seq := 2\<rparr>,
      activeRooms = [(''chat-a'', \<lparr>players = [(''a'', ex_player ''a'' 1)],
                        drawingEventsCache = [], lastActivity = 150\<rparr>)],
      open_ws = {1, 3}\<rparr>"









definition ex_hi :: js_string where "ex_hi = [0x68, 0x69]"
definition ex_yo :: js_string where "ex_yo = [0x79, 0x6F]"

definition ex_chat_db :: database where
  "ex_chat_db =
     db_addChatMessage ''chat-a'' ''b'' ''Bob'' ex_yo 100
       (db_addChatMessage ''chat-a'' ''a'' ''Ann'' ex_hi 100
         (db_createRoom 1000 ''chat-a'' ''Chat A'' False empty_db))"

definition ex_artist :: conn where
  "ex_artist = \<lparr>conn_ws = 1, playerId = Some ''a'', playerName = Some ''Player a'',
                 currentRoomId = Some ''chat-a''\<rparr>"

definition ex_custom_state :: server_state where
  "ex_custom_state =
     \<lparr>db = (db_createRoom 2000 ''custom-1'' ''Doodles'' True
              (db_createRoom 1000 ''chat-a'' ''Chat A'' False empty_db))\<lparr>
        chat_messages := [\<lparr>cm_id = 1, cm_room_id = ''custom-1'', cm_player_id = ''a'',
           cm_player_name = ''Ann'', cm_message = ex_hi, cm_timestamp = 2100\<rparr>],
        drawing_events := [ex_row50,
           \<lparr>de_id = 2, de_room_id = ''custom-1'', de_player_id = ''a'', de_event_type = ''draw'',
            de_event_data = ex_stroke, de_timestamp = 2200\<rparr>],
        canvas_snapshots := [\<lparr>cs_id = 1, cs_room_id = ''custom-1'', cs_snapshot_data = ''png'',
           cs_timestamp = 2300\<rparr>],
        chat_seq := 1, drawing_seq := 2, snapshot_seq := 1\<rparr>,
      activeRooms = [(''custom-1'', \<lparr>players = [], drawingEventsCache = [], lastActivity = 2300\<rparr>)],
      open_ws = {}\<rparr>"

definition ex_busy_custom :: server_state where
  "ex_busy_custom = ex_custom_state\<lparr>activeRooms :=
     [(''custom-1'', \<lparr>players = [(''a'', ex_player ''a'' 1)], drawingEventsCache = [],
                       lastActivity = 2300\<rparr>)]\<rparr>"

section \<open>Shared lemmas\<close>

lemmas db_defs = db_createRoom_def db_getRoom_def empty_db_def db_deleteRoom_def
  db_addChatMessage_def chat_of_row_def chat_rows_desc_def db_getChatHistory_def
  db_addDrawingEvent_def event_of_row_def drawing_rows_since_def db_getDrawingEvents_def
  db_clearDrawingEvents_def db_saveCanvasSnapshot_def db_getCanvasSnapshot_def
  db_clearCanvasSnapshot_def

lemmas room_defs = room_capacity_def MAX_PLAYERS_PER_ROOM_def MAX_CHAT_HISTORY_def
  MAX_DRAWING_EVENTS_MEMORY_def roomExists_def getActivePlayerCount_def getRoomInfo_def
  put_active_def getActiveRoom_def addPlayer_def removePlayer_def getPlayersInRoom_def
  info_of_player_def getRoomState_def touch_def addChatMessage_def addDrawingEvent_def
  clearCanvas_def saveCanvasSnapshot_def setPlayerDrawing_def deleteRoom_def Let_def

lemmas handler_defs = str_or_def num_or_def new_conn_def attached_def broadcastToRoom_def
  handleJoin_def missedEvents_def handleRejoin_def handleDraw_def handleClear_def
  handleChatMessage_def handleDrawIndicator_def handleCanvasSnapshot_def handleQueueReplay_def
  handleClose_def

lemma db_getRoom_Some_mem:
  "db_getRoom d rid = Some room \<Longrightarrow> rid \<in> set (map room_id (rooms d))"
  by (auto simp: db_getRoom_def find_Some_iff)

lemma capacity_ok_iff:
  "capacity_ok s \<longleftrightarrow>
     (\<forall>rid room. db_getRoom (db s) rid = Some room \<longrightarrow>
        getActivePlayerCount s rid \<le> room_capacity room)"
proof
  assume h: "capacity_ok s"
  show "\<forall>rid room. db_getRoom (db s) rid = Some room \<longrightarrow>
      getActivePlayerCount s rid \<le> room_capacity room"
  proof (intro allI impI)
    fix rid room assume g: "db_getRoom (db s) rid = Some room"
    then have "rid \<in> set (map room_id (rooms (db s)))" by (rule db_getRoom_Some_mem)
    with h g show "getActivePlayerCount s rid \<le> room_capacity room"
      unfolding capacity_ok_def by fastforce
  qed
next
  assume "\<forall>rid room. db_getRoom (db s) rid = Some room \<longrightarrow>
      getActivePlayerCount s rid \<le> room_capacity room"
  then show "capacity_ok s"
    unfolding capacity_ok_def by (auto split: option.splits)
qed

lemma capacity_ok_init: "capacity_ok init_state"
  by (simp add: capacity_ok_def init_state_def empty_db_def)

lemma db_put_active [simp]: "db (put_active rid a s) = db s"
  by (simp add: put_active_def)

lemma open_ws_put_active [simp]: "open_ws (put_active rid a s) = open_ws s"
  by (simp add: put_active_def)

lemma map_of_put_active [simp]:
  "map_of (activeRooms (put_active rid a s)) = (map_of (activeRooms s))(rid \<mapsto> a)"
  by (simp add: put_active_def update_conv')

lemma count_put_active:
  "getActivePlayerCount (put_active rid a s) r =
     (if r = rid then length (players a) else getActivePlayerCount s r)"
  by (simp add: getActivePlayerCount_def)

lemma players_put_active:
  "getPlayersInRoom (put_active rid a s) r =
     (if r = rid then map snd (players a) else getPlayersInRoom s r)"
  by (simp add: getPlayersInRoom_def)

lemma getActiveRoom_db [simp]: "db (snd (getActiveRoom now rid s)) = db s"
  by (simp add: getActiveRoom_def Let_def split: option.splits)

lemma getActiveRoom_open_ws [simp]: "open_ws (snd (getActiveRoom now rid s)) = open_ws s"
  by (simp add: getActiveRoom_def Let_def split: option.splits)

lemma getActiveRoom_lookup:
  "map_of (activeRooms (snd (getActiveRoom now rid s))) rid = Some (fst (getActiveRoom now rid s))"
  by (simp add: getActiveRoom_def Let_def split: option.splits)

lemma getActiveRoom_players:
  "getPlayersInRoom (snd (getActiveRoom now rid s)) r = getPlayersInRoom s r"
  by (simp add: getActiveRoom_def getPlayersInRoom_def Let_def split: option.splits)

lemma getActiveRoom_count:
  "getActivePlayerCount (snd (getActiveRoom now rid s)) r = getActivePlayerCount s r"
  by (simp add: getActiveRoom_def getActivePlayerCount_def Let_def split: option.splits)

lemma getActiveRoom_fst_length:
  "length (players (fst (getActiveRoom now rid s))) = getActivePlayerCount s rid"
  by (simp add: getActiveRoom_def getActivePlayerCount_def Let_def split: option.splits)

lemma getActiveRoom_fst_players:
  "map snd (players (fst (getActiveRoom now rid s))) = getPlayersInRoom s rid"
  by (simp add: getActiveRoom_def getPlayersInRoom_def Let_def split: option.splits)

lemma count_eq_length_players: "getActivePlayerCount s r = length (getPlayersInRoom s r)"
  by (simp add: getActivePlayerCount_def getPlayersInRoom_def split: option.splits)

lemma length_update_le: "length (AList.update k v al) \<le> Suc (length al)"
  by (induction al) auto

subsection \<open>Joining and leaving\<close>

lemma addPlayer_db [simp]: "db (snd (addPlayer now rid p s)) = db s"
  by (simp add: addPlayer_def split: option.splits prod.splits)
    (metis getActiveRoom_db snd_conv)

lemma addPlayer_accepts:
  "fst (addPlayer now rid p s) \<longleftrightarrow>
     (\<exists>room. db_getRoom (db s) rid = Some room \<and> getActivePlayerCount s rid < room_capacity room)"
  by (auto simp: addPlayer_def split: option.splits prod.splits)
     (metis fst_conv getActiveRoom_fst_length not_less)+

lemma addPlayer_rejected_players:
  "\<not> fst (addPlayer now rid p s) \<Longrightarrow>
     getPlayersInRoom (snd (addPlayer now rid p s)) r = getPlayersInRoom s r"
  by (auto simp: addPlayer_def split: option.splits prod.splits if_splits)
     (metis getActiveRoom_players snd_conv)

lemma addPlayer_count_other:
  "r \<noteq> rid \<Longrightarrow> getActivePlayerCount (snd (addPlayer now rid p s)) r = getActivePlayerCount s r"
  by (auto simp: addPlayer_def count_put_active split: option.splits prod.splits)
     (metis getActiveRoom_count snd_conv)+

lemma addPlayer_count_same:
  "db_getRoom (db s) rid = Some room \<Longrightarrow> getActivePlayerCount s rid \<le> room_capacity room \<Longrightarrow>
   getActivePlayerCount (snd (addPlayer now rid p s)) rid \<le> room_capacity room"
proof -
  assume room: "db_getRoom (db s) rid = Some room"
    and le: "getActivePlayerCount s rid \<le> room_capacity room"
  obtain a s1 where g: "getActiveRoom now rid s = (a, s1)" by (cases "getActiveRoom now rid s")
  have len: "length (players a) = getActivePlayerCount s rid"
    using getActiveRoom_fst_length [of now rid s] g by simp
  have cnt: "getActivePlayerCount s1 rid = getActivePlayerCount s rid"
    using getActiveRoom_count [of now rid s rid] g by simp
  show ?thesis
  proof (cases "length (players a) \<ge> room_capacity room")
    case True
    then show ?thesis using room g cnt le by (simp add: addPlayer_def)
  next
    case False
    have "length (AList.update (pl_playerId p) p (players a)) \<le> Suc (length (players a))"
      by (rule length_update_le)
    with False show ?thesis using room g by (simp add: addPlayer_def count_put_active)
  qed
qed

lemma addPlayer_registers:
  "fst (addPlayer now rid p s) \<Longrightarrow> p \<in> set (getPlayersInRoom (snd (addPlayer now rid p s)) rid)"
  apply (auto simp: addPlayer_def players_put_active split: option.splits prod.splits if_splits)
  by (metis (no_types, lifting) update_conv' fun_upd_same map_of_SomeD image_eqI snd_conv)

lemma addPlayer_capacity_ok: "capacity_ok s \<Longrightarrow> capacity_ok (snd (addPlayer now rid p s))"
  unfolding capacity_ok_iff
  by (metis addPlayer_db addPlayer_count_other addPlayer_count_same)

lemma removePlayer_db [simp]: "db (snd (removePlayer now rid pid s)) = db s"
  by (simp add: removePlayer_def Let_def split: option.splits)

lemma removePlayer_count:
  "getActivePlayerCount (snd (removePlayer now rid pid s)) r \<le> getActivePlayerCount s r"
  by (auto simp: removePlayer_def Let_def count_put_active getActivePlayerCount_def
      length_delete_le split: option.splits)

lemma removePlayer_capacity_ok: "capacity_ok s \<Longrightarrow> capacity_ok (snd (removePlayer now rid pid s))"
  unfolding capacity_ok_iff
  by (metis removePlayer_db removePlayer_count le_trans)

lemma run_registry_ops_capacity_ok:
  "capacity_ok s \<Longrightarrow> capacity_ok (run_registry_ops ops s)"
  unfolding run_registry_ops_def
proof (induction ops arbitrary: s)
  case Nil
  then show ?case by simp
next
  case (Cons x xs)
  obtain now op where x: "x = (now, op)" by (cases x)
  have "capacity_ok (apply_registry_op s x)"
    using Cons.prems unfolding x
    by (cases op) (simp_all add: addPlayer_capacity_ok removePlayer_capacity_ok)
  then show ?case using Cons.IH by simp
qed

lemma addPlayer_open_ws: "open_ws (snd (addPlayer now rid p s)) = open_ws s"
proof (cases "db_getRoom (db s) rid")
  case None
  then show ?thesis by (simp add: addPlayer_def)
next
  case (Some room)
  obtain a s1 where g: "getActiveRoom now rid s = (a, s1)" by (cases "getActiveRoom now rid s")
  have "open_ws s1 = open_ws s" using getActiveRoom_open_ws [of now rid s] g by simp
  then show ?thesis using Some g by (simp add: addPlayer_def)
qed

subsection \<open>What the manager's writes change\<close>

lemma touch_db [simp]: "db (touch now rid s) = db s"
  by (simp add: touch_def split: option.splits)

lemma touch_open_ws [simp]: "open_ws (touch now rid s) = open_ws s"
  by (simp add: touch_def split: option.splits)

lemma touch_players [simp]: "getPlayersInRoom (touch now rid s) r = getPlayersInRoom s r"
  by (auto simp: touch_def players_put_active getPlayersInRoom_def split: option.splits)

lemma addChatMessage_db:
  "db (addChatMessage now rid m s) =
     db_addChatMessage rid (msg_playerId m) (msg_playerName m) (msg_text m) (msg_timestamp m) (db s)"
  by (simp add: addChatMessage_def)

lemma addChatMessage_players [simp]:
  "getPlayersInRoom (addChatMessage now rid m s) r = getPlayersInRoom s r"
  by (simp add: addChatMessage_def) (simp add: getPlayersInRoom_def)

lemma addChatMessage_open_ws [simp]: "open_ws (addChatMessage now rid m s) = open_ws s"
  by (simp add: addChatMessage_def)

lemma addDrawingEvent_db:
  "db (addDrawingEvent now rid e s) =
     db_addDrawingEvent rid (ev_playerId e) (if ev_type e = [] then ''draw'' else ev_type e)
       (ev_data e) (ev_timestamp e) (db s)"
proof -
  define s1 where "s1 = s\<lparr>db := db_addDrawingEvent rid (ev_playerId e)
      (if ev_type e = [] then ''draw'' else ev_type e) (ev_data e) (ev_timestamp e) (db s)\<rparr>"
  obtain a s2 where g: "getActiveRoom now rid s1 = (a, s2)" by (cases "getActiveRoom now rid s1")
  have "db s2 = db s1" using getActiveRoom_db [of now rid s1] g by simp
  then show ?thesis
    using g by (simp add: addDrawingEvent_def Let_def s1_def)
qed

lemma addDrawingEvent_players [simp]:
  "getPlayersInRoom (addDrawingEvent now rid e s) r = getPlayersInRoom s r"
proof -
  define s1 where "s1 = s\<lparr>db := db_addDrawingEvent rid (ev_playerId e)
      (if ev_type e = [] then ''draw'' else ev_type e) (ev_data e) (ev_timestamp e) (db s)\<rparr>"
  obtain a s2 where g: "getActiveRoom now rid s1 = (a, s2)" by (cases "getActiveRoom now rid s1")
  have p1: "\<And>r. getPlayersInRoom s1 r = getPlayersInRoom s r"
    by (simp add: s1_def getPlayersInRoom_def)
  have p2: "getPlayersInRoom s2 r = getPlayersInRoom s1 r"
    using getActiveRoom_players [of now rid s1 r] g by simp
  have p3: "map snd (players a) = getPlayersInRoom s1 rid"
    using getActiveRoom_fst_players [of now rid s1] g by simp
  show ?thesis
    using g p1 p2 p3 by (simp add: addDrawingEvent_def Let_def s1_def[symmetric] players_put_active)
qed

lemma addDrawingEvent_open_ws [simp]: "open_ws (addDrawingEvent now rid e s) = open_ws s"
proof -
  define s1 where "s1 = s\<lparr>db := db_addDrawingEvent rid (ev_playerId e)
      (if ev_type e = [] then ''draw'' else ev_type e) (ev_data e) (ev_timestamp e) (db s)\<rparr>"
  obtain a s2 where g: "getActiveRoom now rid s1 = (a, s2)" by (cases "getActiveRoom now rid s1")
  have "open_ws s2 = open_ws s1" using getActiveRoom_open_ws [of now rid s1] g by simp
  then show ?thesis
    using g by (simp add: addDrawingEvent_def Let_def s1_def[symmetric]) (simp add: s1_def)
qed

lemma broadcastToRoom_cong:
  "getPlayersInRoom s rid = getPlayersInRoom s' rid \<Longrightarrow> open_ws s = open_ws s' \<Longrightarrow>
   broadcastToRoom s rid m ex = broadcastToRoom s' rid m ex"
  by (simp add: broadcastToRoom_def)

lemma getRoomState_db [simp]: "db (snd (getRoomState now rid s)) = db s"
  by (auto simp: getRoomState_def Let_def split: option.splits prod.splits)
     (metis getActiveRoom_db snd_conv)

lemma clearCanvas_snapshots:
  "canvas_snapshots (db (clearCanvas now rid s)) =
     filter (\<lambda>r. cs_room_id r \<noteq> rid) (canvas_snapshots (db s))"
  by (simp add: clearCanvas_def Let_def db_clearCanvasSnapshot_def db_clearDrawingEvents_def
      split: option.splits)

lemma saveCanvasSnapshot_db:
  "db (saveCanvasSnapshot now rid sdata s) = db_saveCanvasSnapshot rid sdata now (db s)"
  by (simp add: saveCanvasSnapshot_def Let_def split: option.splits)

lemma setPlayerDrawing_db [simp]: "db (setPlayerDrawing rid pid b s) = db s"
  by (simp add: setPlayerDrawing_def split: option.splits)

lemma one_snapshot_filter:
  "one_snapshot_per_room d \<Longrightarrow> canvas_snapshots d' = filter P (canvas_snapshots d) \<Longrightarrow>
   one_snapshot_per_room d'"
  by (simp add: one_snapshot_per_room_def distinct_map_filter)

lemma one_snapshot_same:
  "one_snapshot_per_room d \<Longrightarrow> canvas_snapshots d' = canvas_snapshots d \<Longrightarrow>
   one_snapshot_per_room d'"
  by (simp add: one_snapshot_per_room_def)

lemma db_saveCanvasSnapshot_replaces:
  "snapshots_of (db_saveCanvasSnapshot rid sdata ts d) rid =
     [\<lparr>cs_id = Suc (snapshot_seq d), cs_room_id = rid, cs_snapshot_data = sdata, cs_timestamp = ts\<rparr>]"
  by (simp add: snapshots_of_def db_saveCanvasSnapshot_def filter_empty_conv)

lemma db_saveCanvasSnapshot_others:
  "r \<noteq> rid \<Longrightarrow> snapshots_of (db_saveCanvasSnapshot rid sdata ts d) r = snapshots_of d r"
  by (auto simp: snapshots_of_def db_saveCanvasSnapshot_def intro: filter_cong)

lemma db_saveCanvasSnapshot_one:
  "one_snapshot_per_room d \<Longrightarrow> one_snapshot_per_room (db_saveCanvasSnapshot rid sdata ts d)"
  by (auto simp: one_snapshot_per_room_def db_saveCanvasSnapshot_def distinct_map_filter)

lemma db_addChatMessage_snapshots [simp]:
  "canvas_snapshots (db_addChatMessage rid pid pname msg ts d) = canvas_snapshots d"
  by (simp add: db_addChatMessage_def)

lemma db_addDrawingEvent_snapshots [simp]:
  "canvas_snapshots (db_addDrawingEvent rid pid et ed ts d) = canvas_snapshots d"
  by (simp add: db_addDrawingEvent_def)

lemma deleteRoom_one:
  "one_snapshot_per_room (db s) \<Longrightarrow> one_snapshot_per_room (db (snd (deleteRoom rid s)))"
  by (auto simp: deleteRoom_def db_deleteRoom_def one_snapshot_per_room_def distinct_map_filter
      split: option.splits)

lemma cleanup_loop_one:
  "one_snapshot_per_room (db s) \<Longrightarrow> one_snapshot_per_room (db (cleanup_loop now mx es s))"
proof (induction es arbitrary: s)
  case Nil
  then show ?case by simp
next
  case (Cons e es)
  obtain rid a where e: "e = (rid, a)" by (cases e)
  show ?case
    unfolding e using Cons.prems
    by (auto intro!: Cons.IH deleteRoom_one split: option.splits)
qed

lemma hourly_cleanup_one:
  "one_snapshot_per_room (db s) \<Longrightarrow> one_snapshot_per_room (db (hourly_cleanup now s))"
  using cleanup_loop_one [of s now "24 * 60 * 60 * 1000" "activeRooms s"]
  by (simp add: hourly_cleanup_def Let_def cleanupInactiveRooms_def cleanupOldData_def
      one_snapshot_per_room_def)

lemma replay_event_one:
  "one_snapshot_per_room (db s) \<Longrightarrow> replay_event now rid pid pname e s = Some (s', out) \<Longrightarrow>
   one_snapshot_per_room (db s')"
proof (cases e)
  case (QDraw pts col sz tool_opt ts)
  assume "one_snapshot_per_room (db s)" "replay_event now rid pid pname e s = Some (s', out)"
  then show ?thesis
    unfolding QDraw by (auto simp: Let_def addDrawingEvent_db one_snapshot_per_room_def)
next
  case (QMessage body ts)
  assume "one_snapshot_per_room (db s)" "replay_event now rid pid pname e s = Some (s', out)"
  then show ?thesis
    unfolding QMessage
    by (cases body) (auto simp: Let_def addChatMessage_db one_snapshot_per_room_def)
next
  case (QOther k)
  assume "one_snapshot_per_room (db s)" "replay_event now rid pid pname e s = Some (s', out)"
  then show ?thesis unfolding QOther by simp
qed

lemma replay_events_one:
  "one_snapshot_per_room (db s) \<Longrightarrow>
   one_snapshot_per_room (db (fst (replay_events now rid pid pname es s)))"
proof (induction es arbitrary: s)
  case Nil
  then show ?case by simp
next
  case (Cons e es)
  show ?case
  proof (cases "replay_event now rid pid pname e s")
    case None
    then show ?thesis using Cons.prems by simp
  next
    case (Some r)
    obtain s1 out1 where r: "r = (s1, out1)" by (cases r)
    have "one_snapshot_per_room (db s1)"
      using Cons.prems Some r by (auto intro: replay_event_one)
    from Cons.IH [OF this] show ?thesis
      using Some r by (cases "replay_events now rid pid pname es s1") simp
  qed
qed

lemma handleJoin_db [simp]: "db (fst (snd (handleJoin now uuid c rid pid pname s))) = db s"
proof -
  define p where "p = \<lparr>pl_playerId = str_or pid uuid,
     pl_playerName = str_or pname (''Player '' @ take 4 (str_or pid uuid)),
     pl_ws = conn_ws c, isDrawing = False\<rparr>"
  obtain added s1 where a: "addPlayer now rid p s = (added, s1)" by (cases "addPlayer now rid p s")
  obtain rs s2 where g: "getRoomState now rid s1 = (rs, s2)" by (cases "getRoomState now rid s1")
  have "db s1 = db s" using addPlayer_db [of now rid p s] a by simp
  moreover have "db s2 = db s1" using getRoomState_db [of now rid s1] g by simp
  ultimately show ?thesis
    using a g unfolding handleJoin_def Let_def p_def[symmetric] by simp
qed

lemma handleRejoin_db [simp]: "db (fst (snd (handleRejoin now c rid pid pname t s))) = db s"
proof -
  let ?p = "\<lparr>pl_playerId = pid, pl_playerName = pname, pl_ws = conn_ws c, isDrawing = False\<rparr>"
  obtain added s1 where a: "addPlayer now rid ?p s = (added, s1)" by (cases "addPlayer now rid ?p s")
  obtain rs s2 where g: "getRoomState now rid s1 = (rs, s2)" by (cases "getRoomState now rid s1")
  have "db s1 = db s" using addPlayer_db [of now rid ?p s] a by simp
  moreover have "db s2 = db s1" using getRoomState_db [of now rid s1] g by simp
  ultimately show ?thesis
    using a g by (simp add: handleRejoin_def Let_def split: option.splits)
qed

lemma handleMessage_one:
  assumes "one_snapshot_per_room (db s)"
  shows "one_snapshot_per_room (db (fst (snd (handleMessage now uuid c m s))))"
proof (cases m)
  case (Join rid pid pname)
  then show ?thesis using assms by simp
next
  case (Rejoin rid pid pname t)
  then show ?thesis using assms by simp
next
  case (Draw pts col sz tool_opt)
  with assms show ?thesis
    unfolding Draw
    by (simp add: handleDraw_def Let_def addDrawingEvent_db one_snapshot_per_room_def
        split: option.splits)
next
  case Clear
  with assms show ?thesis
    unfolding Clear
    by (auto simp: handleClear_def Let_def clearCanvas_snapshots one_snapshot_per_room_def
        distinct_map_filter split: option.splits)
next
  case (Message body)
  with assms show ?thesis
    unfolding Message
    by (simp add: handleChatMessage_def Let_def addChatMessage_db one_snapshot_per_room_def
        split: option.splits)
next
  case DrawStart
  with assms show ?thesis
    unfolding DrawStart by (simp add: handleDrawIndicator_def Let_def split: option.splits)
next
  case DrawEnd
  with assms show ?thesis
    unfolding DrawEnd by (simp add: handleDrawIndicator_def Let_def split: option.splits)
next
  case (CanvasSnapshot d)
  with assms show ?thesis
    unfolding CanvasSnapshot
    by (simp add: handleCanvasSnapshot_def saveCanvasSnapshot_db db_saveCanvasSnapshot_one
        split: option.splits)
next
  case (QueueReplay evs)
  show ?thesis
  proof (cases "attached c")
    case None
    then show ?thesis unfolding QueueReplay using assms by (simp add: handleQueueReplay_def)
  next
    case (Some t)
    obtain rid pid pname where t: "t = (rid, pid, pname)" by (cases t)
    show ?thesis
    proof (cases evs)
      case None
      then show ?thesis
        unfolding QueueReplay using assms Some t by (simp add: handleQueueReplay_def)
    next
      case (Some es)
      obtain s1 out1 th where r: "replay_events now rid pid pname es s = (s1, out1, th)"
        by (cases "replay_events now rid pid pname es s")
      have "one_snapshot_per_room (db s1)"
        using replay_events_one [OF assms, of now rid pid pname es] r by simp
      then show ?thesis
        unfolding QueueReplay using \<open>attached c = Some t\<close> t Some r
        by (simp add: handleQueueReplay_def)
    qed
  qed
next
  case (Unknown k)
  with assms show ?thesis unfolding Unknown by simp
qed

lemma handleClose_db [simp]: "db (fst (handleClose now c s)) = db s"
proof (cases "attached c")
  case None
  then show ?thesis by (simp add: handleClose_def)
next
  case (Some t)
  obtain rid pid pname where t: "t = (rid, pid, pname)" by (cases t)
  obtain removed s1 where r: "removePlayer now rid pid s = (removed, s1)"
    by (cases "removePlayer now rid pid s")
  have "db s1 = db s" using removePlayer_db [of now rid pid s] r by simp
  then show ?thesis using Some t r by (simp add: handleClose_def)
qed

lemma createRoom_snapshots:
  "canvas_snapshots (db (snd (createRoom now nm rid custom s))) = canvas_snapshots (db s)"
  by (simp add: createRoom_def Let_def db_createRoom_def)

lemma delete_room_endpoint_one:
  "one_snapshot_per_room (db s) \<Longrightarrow> one_snapshot_per_room (db (snd (delete_room_endpoint rid s)))"
  by (auto simp: delete_room_endpoint_def deleteRoom_one split: option.splits)

subsection \<open>Reading drawing events\<close>

lemma ev_timestamp_event_of_row [simp]: "ev_timestamp (event_of_row r) = de_timestamp r"
  by (simp add: event_of_row_def)

lemma filter_getDrawingEvents:
  "filter (\<lambda>e. ev_timestamp e > t) (db_getDrawingEvents d rid since) =
     db_getDrawingEvents d rid (max t since)"
proof -
  have "filter (\<lambda>r. de_timestamp r > t)
          (filter (\<lambda>r. de_room_id r = rid \<and> de_timestamp r > since) (drawing_events d)) =
        filter (\<lambda>r. de_room_id r = rid \<and> de_timestamp r > max t since) (drawing_events d)"
    by (auto intro: filter_cong)
  then show ?thesis
    by (simp add: db_getDrawingEvents_def drawing_rows_since_def filter_map comp_def filter_sort)
qed

lemma sorted_getDrawingEvents:
  "sorted (map ev_timestamp (db_getDrawingEvents d rid since))"
  by (simp add: db_getDrawingEvents_def drawing_rows_since_def comp_def)

lemma set_getDrawingEvents:
  "e \<in> set (db_getDrawingEvents d rid since) \<Longrightarrow> since < ev_timestamp e"
  by (auto simp: db_getDrawingEvents_def drawing_rows_since_def)

lemma getRoomState_events:
  assumes "fst (getRoomState now rid s) = Some rs"
  shows "drawingEvents rs = db_getDrawingEvents (db s) rid (events_floor (db s) rid) \<and>
         canvasSnapshot rs = map_option snapshotData (db_getCanvasSnapshot (db s) rid)"
proof (cases "db_getRoom (db s) rid")
  case None
  then show ?thesis using assms by (simp add: getRoomState_def)
next
  case (Some room)
  obtain a s1 where g: "getActiveRoom now rid s = (a, s1)" by (cases "getActiveRoom now rid s")
  have d: "db s1 = db s" using getActiveRoom_db [of now rid s] g by simp
  show ?thesis
    using assms Some g d
    by (auto simp: getRoomState_def Let_def events_floor_def split: option.splits)
qed

lemma handleRejoin_missed:
  assumes "rejoin_missed (handleRejoin now c rid pid pname t s) = Some missed"
  shows "missed = missedEvents t (db_getDrawingEvents (db s) rid (events_floor (db s) rid))"
proof -
  define p where "p = \<lparr>pl_playerId = pid, pl_playerName = pname, pl_ws = conn_ws c, isDrawing = False\<rparr>"
  obtain added s1 where a: "addPlayer now rid p s = (added, s1)" by (cases "addPlayer now rid p s")
  obtain rs s2 where g: "getRoomState now rid s1 = (rs, s2)" by (cases "getRoomState now rid s1")
  have d1: "db s1 = db s" using addPlayer_db [of now rid p s] a by simp
  from assms a g obtain rs' where rs: "rs = Some rs'"
    and m: "missed = missedEvents t (drawingEvents rs')"
    unfolding handleRejoin_def Let_def p_def[symmetric] rejoin_missed_def
    by (auto split: if_splits option.splits)
  have "fst (getRoomState now rid s1) = Some rs'" using g rs by simp
  from getRoomState_events [OF this] m d1 show ?thesis by simp
qed

lemma hd_sort_desc:
  fixes f :: "'a \<Rightarrow> int"
  assumes "xs \<noteq> []"
  shows "f (hd (sort_key (\<lambda>r. - f r) xs)) = Max (set (map f xs))"
proof -
  let ?ys = "sort_key (\<lambda>r. - f r) xs"
  have ne: "?ys \<noteq> []" using assms by (metis length_0_conv length_sort)
  then obtain y ys where ys: "?ys = y # ys" by (cases ?ys) auto
  have "sorted (map (\<lambda>r. - f r) ?ys)" by simp
  then have le: "\<forall>z \<in> set ys. f z \<le> f y" unfolding ys by auto
  have st: "set xs = insert y (set ys)" using ys by (metis list.simps(15) set_sort)
  have "Max (set (map f xs)) = f y"
  proof (rule Max_eqI)
    show "finite (set (map f xs))" by simp
    show "\<And>v. v \<in> set (map f xs) \<Longrightarrow> v \<le> f y" using le st by auto
    show "f y \<in> set (map f xs)" using st by auto
  qed
  then show ?thesis by (simp add: ys)
qed

lemma events_floor_raw:
  "events_floor d rid =
     (if snapshots_of d rid = [] then 0
      else Max (set (map cs_timestamp (snapshots_of d rid))))"
proof (cases "snapshots_of d rid = []")
  case True
  then show ?thesis
    by (simp add: events_floor_def db_getCanvasSnapshot_def snapshots_of_def)
next
  case False
  let ?ys = "sort_key (\<lambda>r. - cs_timestamp r) (snapshots_of d rid)"
  have "?ys \<noteq> []" using False by (metis length_0_conv length_sort)
  then obtain y ys where ys: "?ys = y # ys" by (cases ?ys) auto
  have "cs_timestamp (hd ?ys) = Max (set (map cs_timestamp (snapshots_of d rid)))"
    using False by (rule hd_sort_desc)
  then show ?thesis
    using False ys
    by (simp add: events_floor_def db_getCanvasSnapshot_def snapshots_of_def)
qed

lemma getDrawingEvents_rows:
  "db_getDrawingEvents d rid (max t fl) =
     map event_of_row (sort_key de_timestamp
       (filter (\<lambda>r. de_room_id r = rid \<and> t < de_timestamp r \<and> fl < de_timestamp r)
          (drawing_events d)))"
proof -
  have "filter (\<lambda>r. de_room_id r = rid \<and> max t fl < de_timestamp r) (drawing_events d) =
        filter (\<lambda>r. de_room_id r = rid \<and> t < de_timestamp r \<and> fl < de_timestamp r)
          (drawing_events d)"
    by (auto intro: filter_cong)
  then show ?thesis by (simp add: db_getDrawingEvents_def drawing_rows_since_def)
qed

lemma msg_timestamp_chat_of_row [simp]: "msg_timestamp (chat_of_row r) = cm_timestamp r"
  by (simp add: chat_of_row_def)

lemma sorted_desc_rev:
  "sorted (map (\<lambda>r. - f r) xs) \<Longrightarrow> sorted (map (f :: 'a \<Rightarrow> int) (rev xs))"
  by (induction xs) (auto simp: sorted_append)

lemma distinct_filter_le1:
  "distinct (map f xs) \<Longrightarrow> length (filter (\<lambda>x. f x = k) xs) \<le> 1"
proof (induction xs)
  case Nil
  then show ?case by simp
next
  case (Cons x xs)
  show ?case
  proof (cases "f x = k")
    case True
    then have "k \<notin> f ` set xs" using Cons.prems by auto
    then have "filter (\<lambda>x. f x = k) xs = []" by (auto simp: filter_empty_conv)
    with True show ?thesis by simp
  next
    case False
    then show ?thesis using Cons by simp
  qed
qed

subsection \<open>Writes of one connection\<close>

lemma addDrawingEvent_rows:
  "drawing_events (db (addDrawingEvent now rid e s)) =
     drawing_events (db s) @
       [\<lparr>de_id = Suc (drawing_seq (db s)), de_room_id = rid, de_player_id = ev_playerId e,
         de_event_type = (if ev_type e = [] then ''draw'' else ev_type e),
         de_event_data = ev_data e, de_timestamp = ev_timestamp e\<rparr>]"
  and addDrawingEvent_chat: "chat_messages (db (addDrawingEvent now rid e s)) = chat_messages (db s)"
  by (simp_all add: addDrawingEvent_db db_addDrawingEvent_def)

lemma addChatMessage_rows:
  "chat_messages (db (addChatMessage now rid m s)) =
     chat_messages (db s) @
       [\<lparr>cm_id = Suc (chat_seq (db s)), cm_room_id = rid, cm_player_id = msg_playerId m,
         cm_player_name = msg_playerName m, cm_message = msg_text m,
         cm_timestamp = msg_timestamp m\<rparr>]"
  and addChatMessage_drawing: "drawing_events (db (addChatMessage now rid m s)) = drawing_events (db s)"
  by (simp_all add: addChatMessage_db db_addChatMessage_def)

lemma replay_event_None:
  "replay_event now rid pid pname e s = None \<longleftrightarrow> lacks_text e"
proof (cases e)
  case (QMessage body ts)
  then show ?thesis by (cases body) (simp_all add: Let_def)
qed (simp_all add: Let_def)

lemma replay_event_effect:
  "replay_event now rid pid pname e s = Some (s', out) \<Longrightarrow>
     (\<forall>r. getPlayersInRoom s' r = getPlayersInRoom s r) \<and> open_ws s' = open_ws s \<and>
     out = replay_sends s rid pid pname now e \<and>
     (\<exists>new. drawing_events (db s') = drawing_events (db s) @ new \<and>
        map drawing_view new =
          map (Pair rid) (case replay_draw_event pid now e of None \<Rightarrow> [] | Some ev \<Rightarrow> [ev])) \<and>
     (\<exists>new. chat_messages (db s') = chat_messages (db s) @ new \<and>
        map chat_view new =
          map (Pair rid)
            (case replay_chat_message pid pname now e of None \<Rightarrow> [] | Some m \<Rightarrow> [m]))"
proof (cases e)
  case (QDraw pts col sz tool_opt ts)
  assume "replay_event now rid pid pname e s = Some (s', out)"
  then show ?thesis
    unfolding QDraw
    by (auto simp: Let_def replay_sends_def addDrawingEvent_rows addDrawingEvent_chat
        drawing_view_def event_of_row_def intro: broadcastToRoom_cong)
next
  case (QMessage body ts)
  assume r: "replay_event now rid pid pname e s = Some (s', out)"
  show ?thesis
  proof (cases body)
    case None
    with r QMessage show ?thesis by simp
  next
    case (Some t)
    with r show ?thesis
      unfolding QMessage
      by (auto simp: Let_def replay_sends_def addChatMessage_rows addChatMessage_drawing
          chat_view_def chat_of_row_def intro: broadcastToRoom_cong)
  qed
next
  case (QOther k)
  assume "replay_event now rid pid pname e s = Some (s', out)"
  then show ?thesis unfolding QOther by (auto simp: replay_sends_def)
qed

lemma replay_sends_cong:
  "\<forall>r. getPlayersInRoom s' r = getPlayersInRoom s r \<Longrightarrow> open_ws s' = open_ws s \<Longrightarrow>
   replay_sends s' rid pid pname now e = replay_sends s rid pid pname now e"
  by (auto simp: replay_sends_def split: option.splits intro: broadcastToRoom_cong)

lemma map_filter_Cons:
  "List.map_filter f (x # xs) = (case f x of None \<Rightarrow> [] | Some y \<Rightarrow> [y]) @ List.map_filter f xs"
  by (simp add: List.map_filter_def split: option.splits)

lemma replayed_Cons:
  "replayed (e # es) = (if lacks_text e then [] else e # replayed es)"
  by (simp add: replayed_def)

lemma replayed_all: "replayed evs = evs \<longleftrightarrow> (\<forall>e \<in> set evs. \<not> lacks_text e)"
  by (simp add: replayed_def takeWhile_eq_all_conv)

lemma replay_events_effect:
  "replay_events now rid pid pname evs s = (s', out, thrown) \<Longrightarrow>
     (\<forall>r. getPlayersInRoom s' r = getPlayersInRoom s r) \<and> open_ws s' = open_ws s \<and>
     out = concat (map (replay_sends s rid pid pname now) (replayed evs)) \<and>
     (\<exists>new. drawing_events (db s') = drawing_events (db s) @ new \<and>
        map drawing_view new =
          map (Pair rid) (List.map_filter (replay_draw_event pid now) (replayed evs))) \<and>
     (\<exists>new. chat_messages (db s') = chat_messages (db s) @ new \<and>
        map chat_view new =
          map (Pair rid) (List.map_filter (replay_chat_message pid pname now) (replayed evs))) \<and>
     (thrown \<longleftrightarrow> replayed evs \<noteq> evs)"
proof (induction evs arbitrary: s s' out thrown)
  case Nil
  then show ?case by (simp add: List.map_filter_def replayed_def)
next
  case (Cons e es)
  show ?case
  proof (cases "lacks_text e")
    case True
    then have "replay_event now rid pid pname e s = None" by (simp add: replay_event_None)
    with Cons.prems have "s' = s" "out = []" "thrown" by simp_all
    with True show ?thesis by (simp add: replayed_Cons List.map_filter_def)
  next
    case False
    then obtain s1 out1 where e1: "replay_event now rid pid pname e s = Some (s1, out1)"
      using replay_event_None [of now rid pid pname e s] by (cases "replay_event now rid pid pname e s") auto
    obtain s2 out2 th2 where e2: "replay_events now rid pid pname es s1 = (s2, out2, th2)"
      by (cases "replay_events now rid pid pname es s1")
    have res: "s' = s2" "out = out1 @ out2" "thrown = th2" using Cons.prems e1 e2 by simp_all
    have rp: "replayed (e # es) = e # replayed es" using False by (simp add: replayed_Cons)
    note a = replay_event_effect [OF e1]
    note b = Cons.IH [OF e2]
    from a obtain d1 where d1: "drawing_events (db s1) = drawing_events (db s) @ d1"
      "map drawing_view d1 =
         map (Pair rid) (case replay_draw_event pid now e of None \<Rightarrow> [] | Some ev \<Rightarrow> [ev])"
      by blast
    from a obtain c1 where c1: "chat_messages (db s1) = chat_messages (db s) @ c1"
      "map chat_view c1 =
         map (Pair rid) (case replay_chat_message pid pname now e of None \<Rightarrow> [] | Some m \<Rightarrow> [m])"
      by blast
    from b obtain d2 where d2: "drawing_events (db s2) = drawing_events (db s1) @ d2"
      "map drawing_view d2 = map (Pair rid) (List.map_filter (replay_draw_event pid now) (replayed es))"
      by blast
    from b obtain c2 where c2: "chat_messages (db s2) = chat_messages (db s1) @ c2"
      "map chat_view c2 =
         map (Pair rid) (List.map_filter (replay_chat_message pid pname now) (replayed es))"
      by blast
    have p: "\<forall>r. getPlayersInRoom s' r = getPlayersInRoom s r" "open_ws s' = open_ws s"
      using a b res by simp_all
    have o1: "out1 = replay_sends s rid pid pname now e" using a by blast
    have o2: "out2 = concat (map (replay_sends s1 rid pid pname now) (replayed es))"
      using b by blast
    have "replay_sends s1 rid pid pname now = replay_sends s rid pid pname now"
      using a by (intro ext replay_sends_cong) simp_all
    then have o: "out = concat (map (replay_sends s rid pid pname now) (replayed (e # es)))"
      using o1 o2 res rp by simp
    have d: "drawing_events (db s') = drawing_events (db s) @ (d1 @ d2) \<and>
        map drawing_view (d1 @ d2) =
          map (Pair rid) (List.map_filter (replay_draw_event pid now) (replayed (e # es)))"
      using d1 d2 res rp by (simp add: map_filter_Cons split: option.splits)
    have c: "chat_messages (db s') = chat_messages (db s) @ (c1 @ c2) \<and>
        map chat_view (c1 @ c2) =
          map (Pair rid) (List.map_filter (replay_chat_message pid pname now) (replayed (e # es)))"
      using c1 c2 res rp by (simp add: map_filter_Cons split: option.splits)
    have t: "thrown \<longleftrightarrow> replayed (e # es) \<noteq> e # es"
      using b res rp by simp
    show ?thesis using p o d c t by blast
  qed
qed

lemma handleDraw_effect:
  assumes "attached c = Some (rid, pid, pname)"
  shows "handleDraw now c pts col sz tool_opt s =
     (c, addDrawingEvent now rid
           \<lparr>ev_playerId = pid, ev_type = ''draw'',
            ev_data = \<lparr>points = pts, color = col, stroke_size = sz, tool = str_or tool_opt ''pen''\<rparr>,
            ev_timestamp = now\<rparr> s,
      broadcastToRoom s rid
        (DrawMsg \<lparr>ev_playerId = pid, ev_type = ''draw'',
            ev_data = \<lparr>points = pts, color = col, stroke_size = sz, tool = str_or tool_opt ''pen''\<rparr>,
            ev_timestamp = now\<rparr>) (Some pid))"
  using assms by (simp add: handleDraw_def Let_def broadcastToRoom_def)

lemma handleChatMessage_accepts:
  assumes "attached c = Some (rid, pid, pname)" and "chat_text_ok (Some t)"
  shows "handleChatMessage now c (Some t) s =
     (c, addChatMessage now rid
           \<lparr>msg_playerId = pid, msg_playerName = pname, msg_text = trim t, msg_timestamp = now\<rparr> s,
      broadcastToRoom s rid
        (ChatMsg \<lparr>msg_playerId = pid, msg_playerName = pname, msg_text = trim t,
                  msg_timestamp = now\<rparr>) None)"
  using assms by (simp add: handleChatMessage_def chat_text_ok_def Let_def broadcastToRoom_def)

lemma handleChatMessage_drops:
  assumes "attached c = None \<or> \<not> chat_text_ok body"
  shows "handleChatMessage now c body s = (c, s, [])"
  using assms by (auto simp: handleChatMessage_def chat_text_ok_def split: option.splits)

lemma trim_padded: "\<not> js_white a \<Longrightarrow> js_white b \<Longrightarrow> 0 < n \<Longrightarrow> trim (replicate n a @ [b]) = replicate n a"
  by (cases n) (simp_all add: trim_def replicate_append_same)

lemma find_filter_None: "find (\<lambda>r. f r = k) (filter (\<lambda>r. f r \<noteq> k) xs) = None"
  by (simp add: find_None_iff)

lemma attached_recorded:
  "rid \<noteq> [] \<Longrightarrow> pid \<noteq> [] \<Longrightarrow>
   attached (c\<lparr>playerId := Some pid, playerName := Some pname, currentRoomId := Some rid\<rparr>)
     = Some (rid, pid, pname)"
  by (simp add: attached_def)

lemma handleJoin_rejected:
  assumes "\<not> roomExists s rid \<or>
     \<not> fst (addPlayer now rid \<lparr>pl_playerId = str_or pid uuid,
         pl_playerName = str_or pname (''Player '' @ take 4 (str_or pid uuid)),
         pl_ws = conn_ws c, isDrawing = False\<rparr> s)"
    and "handleJoin now uuid c rid pid pname s = (c', s', out)"
  shows "c' = c\<lparr>playerId := Some (str_or pid uuid),
               playerName := Some (str_or pname (''Player '' @ take 4 (str_or pid uuid))),
               currentRoomId := Some rid\<rparr> \<and>
         (\<exists>e. out = [(conn_ws c, ErrorMsg e)]) \<and> db s' = db s \<and> open_ws s' = open_ws s \<and>
         (\<forall>r. getPlayersInRoom s' r = getPlayersInRoom s r)"
proof -
  define p where "p = \<lparr>pl_playerId = str_or pid uuid,
     pl_playerName = str_or pname (''Player '' @ take 4 (str_or pid uuid)),
     pl_ws = conn_ws c, isDrawing = False\<rparr>"
  obtain added s1 where a: "addPlayer now rid p s = (added, s1)" by (cases "addPlayer now rid p s")
  have d: "db s1 = db s" using addPlayer_db [of now rid p s] a by simp
  show ?thesis
  proof (cases "roomExists s rid")
    case False
    then show ?thesis using assms(2) by (auto simp: handleJoin_def Let_def)
  next
    case True
    with assms(1) a have na: "\<not> added" by (simp add: p_def)
    then have pl: "\<forall>r. getPlayersInRoom s1 r = getPlayersInRoom s r"
      using addPlayer_rejected_players [of now rid p s] a by simp
    have ow: "open_ws s1 = open_ws s"
      using addPlayer_open_ws [of now rid p s] a by simp
    show ?thesis
      using assms(2) True a na d pl ow
      unfolding handleJoin_def Let_def p_def[symmetric] by auto
  qed
qed

lemma handleRejoin_rejected:
  assumes "\<not> roomExists s rid \<or>
     \<not> fst (addPlayer now rid \<lparr>pl_playerId = pid, pl_playerName = pname,
         pl_ws = conn_ws c, isDrawing = False\<rparr> s)"
    and "handleRejoin now c rid pid pname t s = (c', s', out)"
  shows "c' = c\<lparr>playerId := Some pid, playerName := Some pname, currentRoomId := Some rid\<rparr> \<and>
         (\<exists>e. out = [(conn_ws c, ErrorMsg e)]) \<and> db s' = db s \<and> open_ws s' = open_ws s \<and>
         (\<forall>r. getPlayersInRoom s' r = getPlayersInRoom s r)"
proof -
  define p where "p = \<lparr>pl_playerId = pid, pl_playerName = pname,
     pl_ws = conn_ws c, isDrawing = False\<rparr>"
  obtain added s1 where a: "addPlayer now rid p s = (added, s1)" by (cases "addPlayer now rid p s")
  have d: "db s1 = db s" using addPlayer_db [of now rid p s] a by simp
  show ?thesis
  proof (cases "roomExists s rid")
    case False
    then show ?thesis using assms(2) by (auto simp: handleRejoin_def Let_def)
  next
    case True
    with assms(1) a have na: "\<not> added" by (simp add: p_def)
    then have pl: "\<forall>r. getPlayersInRoom s1 r = getPlayersInRoom s r"
      using addPlayer_rejected_players [of now rid p s] a by simp
    have ow: "open_ws s1 = open_ws s"
      using addPlayer_open_ws [of now rid p s] a by simp
    show ?thesis
      using assms(2) True a na d pl ow
      unfolding handleRejoin_def Let_def p_def[symmetric] by auto
  qed
qed

lemma rejected_join_records:
  assumes "joining_player uuid c m = Some (rid, p)"
    and "join_rejected now rid p s"
    and "handleMessage now uuid c m s = (c', s', out)"
  shows "c' = c\<lparr>playerId := Some (pl_playerId p), playerName := Some (pl_playerName p),
               currentRoomId := Some rid\<rparr> \<and>
         (\<exists>e. out = [(conn_ws c, ErrorMsg e)]) \<and> db s' = db s \<and> open_ws s' = open_ws s \<and>
         (\<forall>r. getPlayersInRoom s' r = getPlayersInRoom s r)"
proof (cases m)
  case (Join rid0 pid pname)
  have e: "rid0 = rid"
    and p: "p = \<lparr>pl_playerId = str_or pid uuid,
         pl_playerName = str_or pname (''Player '' @ take 4 (str_or pid uuid)),
         pl_ws = conn_ws c, isDrawing = False\<rparr>"
    using assms(1) Join by simp_all
  have rj: "\<not> roomExists s rid \<or>
     \<not> fst (addPlayer now rid \<lparr>pl_playerId = str_or pid uuid,
         pl_playerName = str_or pname (''Player '' @ take 4 (str_or pid uuid)),
         pl_ws = conn_ws c, isDrawing = False\<rparr> s)"
    using assms(2) unfolding join_rejected_def p .
  have hm: "handleJoin now uuid c rid pid pname s = (c', s', out)"
    using assms(3) Join e by simp
  from handleJoin_rejected [OF rj hm] show ?thesis unfolding p by simp
next
  case (Rejoin rid0 pid pname t)
  have e: "rid0 = rid"
    and p: "p = \<lparr>pl_playerId = pid, pl_playerName = pname, pl_ws = conn_ws c, isDrawing = False\<rparr>"
    using assms(1) Rejoin by simp_all
  have rj: "\<not> roomExists s rid \<or>
     \<not> fst (addPlayer now rid \<lparr>pl_playerId = pid, pl_playerName = pname,
         pl_ws = conn_ws c, isDrawing = False\<rparr> s)"
    using assms(2) unfolding join_rejected_def p .
  have hm: "handleRejoin now c rid pid pname t s = (c', s', out)"
    using assms(3) Rejoin e by simp
  from handleRejoin_rejected [OF rj hm] show ?thesis unfolding p by simp
qed (use assms in simp_all)

section \<open>The claims\<close>

text \<open>
  C1. Capacity. Start from a state in which no room of the directory is over capacity
  (the state of a fresh server is one) and run any sequence of \<open>addPlayer\<close> and
  \<open>removePlayer\<close> calls. Then every room still holds at most its \<open>maxPlayers\<close> players.
  In the state reached, \<open>addPlayer\<close> returns \<open>false\<close> exactly when the room is unknown or
  already holds \<open>maxPlayers\<close> players, and then the players of every room are as before;
  when it returns \<open>true\<close> the player is registered in the room.
\<close>

theorem addPlayer_capacity:
  assumes "capacity_ok s0"
  shows "(let s = run_registry_ops ops s0 in
          (\<forall>r room. db_getRoom (db s) r = Some room \<longrightarrow>
              length (getPlayersInRoom s r) \<le> room_capacity room) \<and>
          (case addPlayer now rid p s of
             (ok, s') \<Rightarrow>
               (\<not> ok \<longleftrightarrow> db_getRoom (db s) rid = None \<or>
                  (\<exists>room. db_getRoom (db s) rid = Some room \<and>
                     length (getPlayersInRoom s rid) = room_capacity room)) \<and>
               (\<not> ok \<longrightarrow> (\<forall>r. getPlayersInRoom s' r = getPlayersInRoom s r)) \<and>
               (ok \<longrightarrow> p \<in> set (getPlayersInRoom s' rid))))"
proof -
  define s where "s = run_registry_ops ops s0"
  have inv: "capacity_ok s"
    unfolding s_def using assms by (rule run_registry_ops_capacity_ok)
  have bound: "\<forall>r room. db_getRoom (db s) r = Some room \<longrightarrow>
      length (getPlayersInRoom s r) \<le> room_capacity room"
    using inv unfolding capacity_ok_iff count_eq_length_players by simp
  obtain ok s' where res: "addPlayer now rid p s = (ok, s')" by (cases "addPlayer now rid p s")
  have ok: "ok = fst (addPlayer now rid p s)" and s': "s' = snd (addPlayer now rid p s)"
    using res by simp_all
  have a: "\<not> ok \<longleftrightarrow> db_getRoom (db s) rid = None \<or>
      (\<exists>room. db_getRoom (db s) rid = Some room \<and>
         length (getPlayersInRoom s rid) = room_capacity room)"
  proof (cases "db_getRoom (db s) rid")
    case None
    then show ?thesis unfolding ok addPlayer_accepts by simp
  next
    case (Some room)
    have "length (getPlayersInRoom s rid) \<le> room_capacity room"
      using bound Some by blast
    then show ?thesis
      unfolding ok addPlayer_accepts using Some by (auto simp: count_eq_length_players)
  qed
  have b: "\<not> ok \<longrightarrow> (\<forall>r. getPlayersInRoom s' r = getPlayersInRoom s r)"
    unfolding ok s' by (simp add: addPlayer_rejected_players)
  have c: "ok \<longrightarrow> p \<in> set (getPlayersInRoom s' rid)"
    unfolding ok s' by (simp add: addPlayer_registers)
  show ?thesis
    unfolding Let_def s_def[symmetric] res using bound a b c by simp
qed

theorem addPlayer_capacity_witness:
  "capacity_ok ex_lobby \<and>
   length (getPlayersInRoom (run_registry_ops ex_joins ex_lobby) ''chat-a'') = 4 \<and>
   fst (addPlayer 1007 ''chat-a'' (ex_player ''e'' 5) (run_registry_ops ex_joins ex_lobby)) = False \<and>
   getPlayersInRoom
     (snd (addPlayer 1007 ''chat-a'' (ex_player ''e'' 5) (run_registry_ops ex_joins ex_lobby)))
     ''chat-a''
     = getPlayersInRoom (run_registry_ops ex_joins ex_lobby) ''chat-a''"
proof -
  have h: "capacity_ok ex_lobby"
    by (simp add: capacity_ok_def ex_lobby_def room_defs db_defs)
  have r: "run_registry_ops ex_joins ex_lobby = ex_full_room"
    by (simp add: run_registry_ops_def ex_joins_def ex_lobby_def ex_full_room_def ex_player_def
        room_defs db_defs)
  show ?thesis
    using h addPlayer_capacity [OF h, where ops = ex_joins and now = 1007
        and rid = "''chat-a''" and p = "ex_player ''e'' 5"]
    unfolding r
    by (simp add: ex_full_room_def ex_player_def room_defs db_defs)
qed

text \<open>
  C2, as amended. When a rejoin is answered with a \<open>rejoinState\<close>, its \<open>missedEvents\<close>
  are empty if the watermark is absent or 0. For any other watermark \<open>T\<close> they are
  exactly the persisted drawing events of that room whose timestamp is greater than
  both \<open>T\<close> and the latest timestamp of the room's snapshots (0 if it has none), in
  ascending timestamp order; that is, the events the database returns since the larger
  of the two. No event with a timestamp of \<open>T\<close> or less is among them.
\<close>

theorem rejoin_missed_events:
  assumes "rejoin_missed (handleRejoin now c rid pid pname watermark s) = Some missed"
  shows "missed =
      (case watermark of
         None \<Rightarrow> []
       | Some T \<Rightarrow>
           if T = 0 then []
           else map event_of_row (sort_key de_timestamp
                  (filter (\<lambda>r. de_room_id r = rid \<and> T < de_timestamp r \<and>
                       (if snapshots_of (db s) rid = [] then 0
                        else Max (set (map cs_timestamp (snapshots_of (db s) rid))))
                         < de_timestamp r)
                     (drawing_events (db s))))) \<and>
     (\<forall>T. watermark = Some T \<and> T \<noteq> 0 \<longrightarrow>
        missed = db_getDrawingEvents (db s) rid
          (max T (if snapshots_of (db s) rid = [] then 0
                  else Max (set (map cs_timestamp (snapshots_of (db s) rid)))))) \<and>
     sorted (map ev_timestamp missed) \<and>
     (\<forall>e \<in> set missed. \<forall>T. watermark = Some T \<longrightarrow> T < ev_timestamp e)"
proof -
  define fl where "fl = (if snapshots_of (db s) rid = [] then 0
      else Max (set (map cs_timestamp (snapshots_of (db s) rid))))"
  have fl: "events_floor (db s) rid = fl"
    unfolding fl_def by (rule events_floor_raw)
  have m: "missed = missedEvents watermark (db_getDrawingEvents (db s) rid fl)"
    using handleRejoin_missed [OF assms] fl by simp
  have a: "missed = (case watermark of None \<Rightarrow> [] | Some T \<Rightarrow>
      if T = 0 then [] else db_getDrawingEvents (db s) rid (max T fl))"
    unfolding m by (simp add: missedEvents_def filter_getDrawingEvents split: option.splits)
  have 1: "missed = (case watermark of None \<Rightarrow> [] | Some T \<Rightarrow>
      if T = 0 then []
      else map event_of_row (sort_key de_timestamp
             (filter (\<lambda>r. de_room_id r = rid \<and> T < de_timestamp r \<and> fl < de_timestamp r)
                (drawing_events (db s)))))"
    unfolding a by (simp add: getDrawingEvents_rows split: option.splits)
  have 2: "\<forall>T. watermark = Some T \<and> T \<noteq> 0 \<longrightarrow>
      missed = db_getDrawingEvents (db s) rid (max T fl)"
    unfolding a by simp
  have 3: "sorted (map ev_timestamp missed)"
    unfolding a by (simp add: sorted_getDrawingEvents split: option.splits)
  have 4: "\<forall>e \<in> set missed. \<forall>T. watermark = Some T \<longrightarrow> T < ev_timestamp e"
    unfolding a by (auto dest: set_getDrawingEvents split: if_splits)
  show ?thesis
    using 1 2 3 4 unfolding fl_def by blast
qed

theorem rejoin_missed_events_witness:
  "rejoin_missed (handleRejoin 200 (new_conn 3) ''chat-a'' ''c'' ''Cleo'' (Some 120) ex_two_rooms)
     = Some [event_of_row ex_row150] \<and>
   rejoin_missed (handleRejoin 200 (new_conn 3) ''chat-a'' ''c'' ''Cleo'' None ex_two_rooms)
     = Some [] \<and>
   map de_room_id (drawing_events (db ex_two_rooms)) = [''chat-a'', ''chat-a'', ''chat-b''] \<and>
   map de_timestamp (drawing_events (db ex_two_rooms)) = [50, 150, 160] \<and>
   map cs_timestamp (snapshots_of (db ex_two_rooms) ''chat-a'') = [100]"
proof -
  have h: "rejoin_missed (handleRejoin 200 (new_conn 3) ''chat-a'' ''c'' ''Cleo'' (Some 120)
      ex_two_rooms) = Some [event_of_row ex_row150]"
    by (simp add: rejoin_missed_def ex_two_rooms_def ex_row50_def ex_row150_def ex_row_b_def
      ex_player_def handler_defs room_defs db_defs)
  have n: "rejoin_missed (handleRejoin 200 (new_conn 3) ''chat-a'' ''c'' ''Cleo'' None
      ex_two_rooms) = Some []"
    by (simp add: rejoin_missed_def ex_two_rooms_def ex_row50_def ex_row150_def ex_row_b_def
      ex_player_def handler_defs room_defs db_defs)
  have r: "map de_room_id (drawing_events (db ex_two_rooms)) = [''chat-a'', ''chat-a'', ''chat-b'']"
    "map de_timestamp (drawing_events (db ex_two_rooms)) = [50, 150, 160]"
    "map cs_timestamp (snapshots_of (db ex_two_rooms) ''chat-a'') = [100]"
    by (simp_all add: ex_two_rooms_def ex_row50_def ex_row150_def ex_row_b_def snapshots_of_def
        db_defs)
  have w: "rejoin_missed (handleRejoin 200 (new_conn 3) ''chat-a'' ''c'' ''Cleo'' (Some 120)
        ex_two_rooms) = Some [event_of_row ex_row150] \<and>
      rejoin_missed (handleRejoin 200 (new_conn 3) ''chat-a'' ''c'' ''Cleo'' None ex_two_rooms)
        = Some [] \<and>
      map de_room_id (drawing_events (db ex_two_rooms)) = [''chat-a'', ''chat-a'', ''chat-b''] \<and>
      map de_timestamp (drawing_events (db ex_two_rooms)) = [50, 150, 160] \<and>
      map cs_timestamp (snapshots_of (db ex_two_rooms) ''chat-a'') = [100]"
    using h n r by simp
  from conjI [OF w conjI [OF rejoin_missed_events [OF h] rejoin_missed_events [OF n]]]
  show ?thesis by (rule conjunct1)
qed

text \<open>
  C2 as stated fails: the room has a snapshot stamped 100 and drawing events stamped 50
  and 150. A rejoin with watermark 10 gets the event of 150 alone, while the events
  since 10 are both.
\<close>

theorem rejoin_missed_counterexample:
  "rejoin_missed (handleRejoin 200 (new_conn 3) ''chat-a'' ''c'' ''Cleo'' (Some 10) ex_canvas_state)
     = Some [event_of_row ex_row150] \<and>
   db_getDrawingEvents (db ex_canvas_state) ''chat-a'' 10
     = [event_of_row ex_row50, event_of_row ex_row150]"
  by (simp add: rejoin_missed_def ex_canvas_state_def ex_row50_def ex_row150_def ex_player_def
      handler_defs room_defs db_defs)


text \<open>
  C4. Compaction safety. A drawing event that the cleanup pass deletes is older than
  the cutoff (\<open>now - maxAgeMs\<close>), and its room has a stored snapshot, still there after
  the pass, whose timestamp is at least the cutoff and later than the event: no event
  at or after the cutoff is deleted, and none without a snapshot that covers it.
\<close>

theorem cleanupOldData_safe:
  assumes "r \<in> set (drawing_events d)"
    and "r \<notin> set (drawing_events (cleanupOldData now maxAgeMs d))"
  shows "de_timestamp r < now - maxAgeMs \<and>
     (\<exists>sn \<in> set (canvas_snapshots (cleanupOldData now maxAgeMs d)).
        cs_room_id sn = de_room_id r \<and> cs_timestamp sn \<ge> now - maxAgeMs \<and>
        cs_timestamp sn > de_timestamp r)"
  using assms
  by (auto simp: cleanupOldData_def cleanup_deletes_def rooms_with_newer_snapshot_def Let_def)

theorem cleanupOldData_safe_witness:
  "ex_old_row \<in> set (drawing_events ex_compactable) \<and>
   ex_old_row \<notin> set (drawing_events (cleanupOldData 110 100 ex_compactable)) \<and>
   de_timestamp ex_old_row < 110 - 100 \<and>
   canvas_snapshots (cleanupOldData 110 100 ex_compactable) =
     [\<lparr>cs_id = 1, cs_room_id = ''chat-a'', cs_snapshot_data = ''png'', cs_timestamp = 20\<rparr>]"
proof -
  have h1: "ex_old_row \<in> set (drawing_events ex_compactable)"
    by (simp add: ex_compactable_def)
  have h2: "ex_old_row \<notin> set (drawing_events (cleanupOldData 110 100 ex_compactable))"
    by (simp add: ex_compactable_def ex_old_row_def empty_db_def cleanupOldData_def
        cleanup_deletes_def rooms_with_newer_snapshot_def Let_def)
  show ?thesis
    using h1 h2 cleanupOldData_safe [OF h1 h2]
    by (simp add: ex_compactable_def ex_old_row_def empty_db_def cleanupOldData_def)
qed

text \<open>
  C5, as amended. A chat message whose text is missing, empty or all white space, or
  whose length before trimming exceeds 140 UTF-16 code units, is dropped without a
  word: no state changes and nothing is sent, to the sender or to anyone. So is any
  message of a connection that has recorded no room and player. Otherwise the trimmed
  text is persisted with the connection's identity and the receipt time, and sent to
  every player of the room whose socket is open.
\<close>

theorem chat_validation:
  "(attached c = None \<or> \<not> chat_text_ok body \<longrightarrow> handleChatMessage now c body s = (c, s, [])) \<and>
   (attached c = Some (rid, pid, pname) \<and> body = Some t \<and> chat_text_ok body \<longrightarrow>
      (case handleChatMessage now c body s of
         (c', s', out) \<Rightarrow>
           c' = c \<and>
           chat_messages (db s') = chat_messages (db s) @
             [\<lparr>cm_id = Suc (chat_seq (db s)), cm_room_id = rid, cm_player_id = pid,
               cm_player_name = pname, cm_message = trim t, cm_timestamp = now\<rparr>] \<and>
           out = map (\<lambda>p. (pl_ws p,
                    ChatMsg \<lparr>msg_playerId = pid, msg_playerName = pname, msg_text = trim t,
                             msg_timestamp = now\<rparr>))
                   (filter (\<lambda>p. pl_ws p \<in> open_ws s) (getPlayersInRoom s rid))))"
  by (auto simp: handleChatMessage_drops handleChatMessage_accepts addChatMessage_rows
      broadcastToRoom_def)

theorem chat_validation_witness:
  "attached ex_artist = Some (''chat-a'', ''a'', ''Player a'') \<and>
   chat_text_ok (Some ex_hi) \<and>
   chat_messages (db (fst (snd (handleChatMessage 400 ex_artist (Some ex_hi) ex_canvas_state)))) =
     [\<lparr>cm_id = 1, cm_room_id = ''chat-a'', cm_player_id = ''a'', cm_player_name = ''Player a'',
       cm_message = ex_hi, cm_timestamp = 400\<rparr>] \<and>
   map fst (snd (snd (handleChatMessage 400 ex_artist (Some ex_hi) ex_canvas_state))) = [1, 2]"
proof -
  have t: "trim ex_hi = ex_hi"
    by (simp add: trim_def ex_hi_def js_white_def)
  have a: "attached ex_artist = Some (''chat-a'', ''a'', ''Player a'')"
    by (simp add: attached_def ex_artist_def)
  have k: "chat_text_ok (Some ex_hi)"
    by (simp add: chat_text_ok_def t) (simp add: ex_hi_def)
  show ?thesis
    using a k t chat_validation [where c = ex_artist and body = "Some ex_hi" and t = ex_hi
        and rid = "''chat-a''" and pid = "''a''" and pname = "''Player a''" and now = 400
        and s = ex_canvas_state]
    by (simp add: ex_canvas_state_def ex_player_def getPlayersInRoom_def empty_db_def
        db_createRoom_def split: prod.splits)
qed

text \<open>
  C5 as stated fails twice. An empty text is dropped and the sender is told nothing.
  A text of 140 letters and one trailing space is 140 long after trimming, yet it is
  dropped as well, because the length test is on the untrimmed text.
\<close>

theorem chat_validation_counterexample:
  "handleChatMessage 400 ex_artist (Some []) ex_canvas_state = (ex_artist, ex_canvas_state, []) \<and>
   length (trim ex_padded) = 140 \<and>
   handleChatMessage 400 ex_artist (Some ex_padded) ex_canvas_state
     = (ex_artist, ex_canvas_state, [])"
proof -
  have "\<not> chat_text_ok (Some [])" by (simp add: chat_text_ok_def)
  moreover have "\<not> chat_text_ok (Some ex_padded)"
    by (simp add: chat_text_ok_def ex_padded_def)
  moreover have "trim ex_padded = replicate 140 0x61"
    unfolding ex_padded_def by (rule trim_padded) (simp_all add: js_white_def)
  ultimately show ?thesis by (simp add: handleChatMessage_drops)
qed

text \<open>
  C6, as amended. For a connection that has recorded a non-empty room id and player id,
  \<open>queueReplay\<close> with an array of buffered events goes through the events in order,
  as far as the first chat line without a text if there is one: there the insert
  throws, the events after it are not looked at, and the sender is sent the error
  \<open>Invalid message format\<close>. Of the events it gets through, each of kind draw adds one
  drawing row and each of kind message one chat row, in the connection's room and under
  the connection's player id (and name, for a chat row); every other kind is ignored.
  The timestamp is the event's when the event has one other than 0, and the receipt
  time otherwise. Each stroke is sent to the other open players of the room and each
  chat line to all of them. Nothing is deduplicated: an event that occurs twice adds
  two rows and is sent twice. When every chat line has its text, all events are gone
  through and no error is sent.
\<close>

theorem queueReplay_effect:
  assumes "attached c = Some (rid, pid, pname)"
    and "handleQueueReplay now c (Some evs) s = (c', s', out)"
  shows "c' = c \<and>
     (\<exists>new. drawing_events (db s') = drawing_events (db s) @ new \<and>
        map drawing_view new =
          map (Pair rid) (List.map_filter (replay_draw_event pid now) (replayed evs))) \<and>
     (\<exists>new. chat_messages (db s') = chat_messages (db s) @ new \<and>
        map chat_view new =
          map (Pair rid) (List.map_filter (replay_chat_message pid pname now) (replayed evs))) \<and>
     out = concat (map (replay_sends s rid pid pname now) (replayed evs)) @
           (if replayed evs = evs then [] else [(conn_ws c, ErrorMsg ''Invalid message format'')]) \<and>
     (replayed evs = evs \<longleftrightarrow> (\<forall>e \<in> set evs. \<not> lacks_text e))"
proof -
  obtain s1 out1 th where r: "replay_events now rid pid pname evs s = (s1, out1, th)"
    by (cases "replay_events now rid pid pname evs s")
  have res: "c' = c" "s' = s1"
    "out = (if th then out1 @ [(conn_ws c, ErrorMsg ''Invalid message format'')] else out1)"
    using assms r by (auto simp: handleQueueReplay_def)
  note e = replay_events_effect [OF r]
  have th: "th \<longleftrightarrow> replayed evs \<noteq> evs" using e by blast
  have o: "out1 = concat (map (replay_sends s rid pid pname now) (replayed evs))" using e by blast
  have out: "out = concat (map (replay_sends s rid pid pname now) (replayed evs)) @
      (if replayed evs = evs then [] else [(conn_ws c, ErrorMsg ''Invalid message format'')])"
    using res(3) th o by simp
  show ?thesis
    using e res(1,2) out replayed_all [of evs] by simp
qed

theorem queueReplay_effect_witness:
  "attached ex_artist = Some (''chat-a'', ''a'', ''Player a'') \<and>
   map de_timestamp (drawing_events (db (fst (snd
       (handleQueueReplay 500 ex_artist (Some ex_queue) ex_canvas_state)))))
     = [50, 150, 60, 60] \<and>
   map de_player_id (drawing_events (db (fst (snd
       (handleQueueReplay 500 ex_artist (Some ex_queue) ex_canvas_state)))))
     = [''a'', ''a'', ''a'', ''a''] \<and>
   map cm_message (chat_messages (db (fst (snd
       (handleQueueReplay 500 ex_artist (Some ex_queue) ex_canvas_state))))) = [ex_hi] \<and>
   map cm_player_name (chat_messages (db (fst (snd
       (handleQueueReplay 500 ex_artist (Some ex_queue) ex_canvas_state))))) = [''Player a''] \<and>
   map cm_timestamp (chat_messages (db (fst (snd
       (handleQueueReplay 500 ex_artist (Some ex_queue) ex_canvas_state))))) = [500] \<and>
   map fst (snd (snd (handleQueueReplay 500 ex_artist (Some ex_queue) ex_canvas_state)))
     = [2, 1, 2, 2]"
proof -
  let ?res = "handleQueueReplay 500 ex_artist (Some ex_queue) ex_canvas_state"
  have a: "attached ex_artist = Some (''chat-a'', ''a'', ''Player a'')"
    by (simp add: attached_def ex_artist_def)
  have v: "?res = (fst ?res, fst (snd ?res), snd (snd ?res))"
    by simp
  have w: "attached ex_artist = Some (''chat-a'', ''a'', ''Player a'') \<and>
      map de_timestamp (drawing_events (db (fst (snd ?res)))) = [50, 150, 60, 60] \<and>
      map de_player_id (drawing_events (db (fst (snd ?res)))) = [''a'', ''a'', ''a'', ''a''] \<and>
      map cm_message (chat_messages (db (fst (snd ?res)))) = [ex_hi] \<and>
      map cm_player_name (chat_messages (db (fst (snd ?res)))) = [''Player a''] \<and>
      map cm_timestamp (chat_messages (db (fst (snd ?res)))) = [500] \<and>
      map fst (snd (snd ?res)) = [2, 1, 2, 2]"
    by code_simp
  from conjI [OF w queueReplay_effect [OF a v]] show ?thesis by (rule conjunct1)
qed

text \<open>
  C6 as stated fails on the timestamp. A buffered stroke that carries the timestamp 0
  is persisted with the receipt time, 500, not with its own. And not each buffered
  event is processed: of a stroke, a chat line without text and the stroke again, only
  the first stroke is persisted and sent, and the sender, on socket 1, gets an error.
\<close>

theorem queueReplay_counterexample:
  "map de_timestamp (drawing_events (db (fst (snd
       (handleQueueReplay 500 ex_artist
          (Some [QDraw ''[{x:5,y:5}]'' ''#ff0000'' ''2'' None (Some 0)]) ex_canvas_state)))))
     = [50, 150, 500] \<and>
   map de_timestamp (drawing_events (db (fst (snd
       (handleQueueReplay 500 ex_artist (Some [ex_queued, QMessage None None, ex_queued])
          ex_canvas_state))))) = [50, 150, 60] \<and>
   map fst (snd (snd (handleQueueReplay 500 ex_artist
       (Some [ex_queued, QMessage None None, ex_queued]) ex_canvas_state))) = [2, 1] \<and>
   last (snd (snd (handleQueueReplay 500 ex_artist
       (Some [ex_queued, QMessage None None, ex_queued]) ex_canvas_state)))
     = (1, ErrorMsg ''Invalid message format'')"
  by (simp add: handleQueueReplay_def attached_def ex_artist_def ex_queued_def Let_def
      addDrawingEvent_rows num_or_def broadcastToRoom_def)
     (simp add: ex_canvas_state_def ex_row50_def ex_row150_def ex_player_def
      getPlayersInRoom_def)

text \<open>
  C7. Deleting a room that exists, through the room deletion request. A room that is not
  custom is refused with status 403 (permission) and nothing changes. A custom room
  with active players is refused with status 400 (conflict) and nothing changes.
  Otherwise the request succeeds: the room's row, its chat messages, drawing events and
  snapshots are gone, the rows of the other rooms stay, and the room has no active
  state any more while that of the other rooms stays.
\<close>

theorem deleteRoom_rules:
  assumes "db_getRoom (db s) rid = Some room"
  shows "(is_custom room \<noteq> 1 \<longrightarrow>
            delete_room_endpoint rid s = (Failure 403 ''Cannot delete default rooms'', s)) \<and>
         (is_custom room = 1 \<and> getActivePlayerCount s rid > 0 \<longrightarrow>
            delete_room_endpoint rid s =
              (Failure 400 ''Cannot delete room with active players'', s)) \<and>
         (is_custom room = 1 \<and> getActivePlayerCount s rid = 0 \<longrightarrow>
            (case delete_room_endpoint rid s of
               (resp, s') \<Rightarrow>
                 resp = Success \<and>
                 db_getRoom (db s') rid = None \<and>
                 rooms (db s') = filter (\<lambda>r. room_id r \<noteq> rid) (rooms (db s)) \<and>
                 chat_messages (db s') = filter (\<lambda>r. cm_room_id r \<noteq> rid) (chat_messages (db s)) \<and>
                 drawing_events (db s') =
                   filter (\<lambda>r. de_room_id r \<noteq> rid) (drawing_events (db s)) \<and>
                 canvas_snapshots (db s') =
                   filter (\<lambda>r. cs_room_id r \<noteq> rid) (canvas_snapshots (db s)) \<and>
                 map_of (activeRooms s') rid = None \<and>
                 (\<forall>r. r \<noteq> rid \<longrightarrow> map_of (activeRooms s') r = map_of (activeRooms s) r)))"
  using assms
  by (auto simp: delete_room_endpoint_def getRoomInfo_def deleteRoom_def db_deleteRoom_def
      db_getRoom_def find_filter_None delete_conv')

theorem deleteRoom_rules_witness:
  "db_getRoom (db ex_custom_state) ''custom-1'' =
     Some \<lparr>room_id = ''custom-1'', room_name = ''Doodles'', created_at = 2000, max_players = 4,
            is_custom = 1\<rparr> \<and>
   fst (delete_room_endpoint ''custom-1'' ex_custom_state) = Success \<and>
   drawing_events (db (snd (delete_room_endpoint ''custom-1'' ex_custom_state))) = [ex_row50] \<and>
   chat_messages (db (snd (delete_room_endpoint ''custom-1'' ex_custom_state))) = [] \<and>
   canvas_snapshots (db (snd (delete_room_endpoint ''custom-1'' ex_custom_state))) = [] \<and>
   activeRooms (snd (delete_room_endpoint ''custom-1'' ex_custom_state)) = [] \<and>
   delete_room_endpoint ''chat-a'' ex_custom_state =
     (Failure 403 ''Cannot delete default rooms'', ex_custom_state) \<and>
   getActivePlayerCount ex_busy_custom ''custom-1'' = 1 \<and>
   delete_room_endpoint ''custom-1'' ex_busy_custom =
     (Failure 400 ''Cannot delete room with active players'', ex_busy_custom)"
proof -
  have h: "db_getRoom (db ex_custom_state) ''custom-1'' =
     Some \<lparr>room_id = ''custom-1'', room_name = ''Doodles'', created_at = 2000, max_players = 4,
            is_custom = 1\<rparr>"
    by (simp add: ex_custom_state_def db_defs)
  have b: "db_getRoom (db ex_busy_custom) ''custom-1'' =
     Some \<lparr>room_id = ''custom-1'', room_name = ''Doodles'', created_at = 2000, max_players = 4,
            is_custom = 1\<rparr>"
    by (simp add: ex_busy_custom_def ex_custom_state_def db_defs)
  have w: "db_getRoom (db ex_custom_state) ''custom-1'' =
       Some \<lparr>room_id = ''custom-1'', room_name = ''Doodles'', created_at = 2000, max_players = 4,
              is_custom = 1\<rparr> \<and>
     fst (delete_room_endpoint ''custom-1'' ex_custom_state) = Success \<and>
     drawing_events (db (snd (delete_room_endpoint ''custom-1'' ex_custom_state))) = [ex_row50] \<and>
     chat_messages (db (snd (delete_room_endpoint ''custom-1'' ex_custom_state))) = [] \<and>
     canvas_snapshots (db (snd (delete_room_endpoint ''custom-1'' ex_custom_state))) = [] \<and>
     activeRooms (snd (delete_room_endpoint ''custom-1'' ex_custom_state)) = [] \<and>
     delete_room_endpoint ''chat-a'' ex_custom_state =
       (Failure 403 ''Cannot delete default rooms'', ex_custom_state) \<and>
     getActivePlayerCount ex_busy_custom ''custom-1'' = 1 \<and>
     delete_room_endpoint ''custom-1'' ex_busy_custom =
       (Failure 400 ''Cannot delete room with active players'', ex_busy_custom)"
    by code_simp
  from conjI [OF w conjI [OF deleteRoom_rules [OF h] deleteRoom_rules [OF b]]]
  show ?thesis by (rule conjunct1)
qed

text \<open>
  C8. One snapshot per room. Saving a snapshot for a room leaves exactly one snapshot
  row for that room, the new one, whatever was stored before. If no room has more than
  one snapshot, then every room has at most one, and this stays so after any message
  of any connection, a close, a room creation, a room deletion request and the hourly
  cleanup; the empty store of a fresh server has the property.
\<close>

theorem single_snapshot_invariant:
  assumes "one_snapshot_per_room (db s)"
  shows "snapshots_of (db_saveCanvasSnapshot rid sdata ts d) rid =
           [\<lparr>cs_id = Suc (snapshot_seq d), cs_room_id = rid, cs_snapshot_data = sdata,
             cs_timestamp = ts\<rparr>] \<and>
         (\<forall>r. length (snapshots_of (db s) r) \<le> 1) \<and>
         one_snapshot_per_room (db (fst (snd (handleMessage now uuid c m s)))) \<and>
         one_snapshot_per_room (db (fst (handleClose now c s))) \<and>
         one_snapshot_per_room (db (snd (createRoom now nm rid custom s))) \<and>
         one_snapshot_per_room (db (snd (delete_room_endpoint rid s))) \<and>
         one_snapshot_per_room (db (hourly_cleanup now s)) \<and>
         one_snapshot_per_room (db init_state)"
proof -
  have a: "\<forall>r. length (snapshots_of (db s) r) \<le> 1"
    using assms unfolding snapshots_of_def one_snapshot_per_room_def
    by (blast intro: distinct_filter_le1)
  have b: "one_snapshot_per_room (db (snd (createRoom now nm rid custom s)))"
    using assms by (simp add: one_snapshot_per_room_def createRoom_snapshots)
  have c: "one_snapshot_per_room (db init_state)"
    by (simp add: one_snapshot_per_room_def init_state_def empty_db_def)
  show ?thesis
    using assms a b c
    by (simp add: db_saveCanvasSnapshot_replaces handleMessage_one delete_room_endpoint_one
        hourly_cleanup_one)
qed

theorem single_snapshot_invariant_witness:
  "one_snapshot_per_room (db ex_canvas_state) \<and>
   canvas_snapshots (db (fst (snd (handleMessage 300 ''u'' ex_artist (CanvasSnapshot (Some ''png2''))
       ex_canvas_state)))) =
     [\<lparr>cs_id = 2, cs_room_id = ''chat-a'', cs_snapshot_data = ''png2'', cs_timestamp = 300\<rparr>] \<and>
   one_snapshot_per_room (db (fst (snd (handleMessage 300 ''u'' ex_artist
       (CanvasSnapshot (Some ''png2'')) ex_canvas_state))))"
proof -
  have h: "one_snapshot_per_room (db ex_canvas_state)"
    by (simp add: one_snapshot_per_room_def ex_canvas_state_def)
  show ?thesis
    using h single_snapshot_invariant [OF h, where now = 300 and uuid = "''u''" and c = ex_artist
        and m = "CanvasSnapshot (Some ''png2'')"]
    by (simp add: ex_canvas_state_def ex_artist_def handler_defs room_defs db_defs)
qed

text \<open>
  C9, as amended. The chat history of a room with limit \<open>n\<close> has \<open>n\<close> messages, or all
  of the room's if there are fewer, in ascending order of timestamp. It is the rows the
  query keeps, reversed; kept and omitted rows together are the room's rows, and no
  omitted row has a later timestamp than a kept one. The query orders by timestamp
  only: nothing orders rows of equal timestamp by id.
\<close>

theorem chatHistory_bounded:
  "length (db_getChatHistory d rid limit) = min limit (length (room_chat_rows d rid)) \<and>
   sorted (map msg_timestamp (db_getChatHistory d rid limit)) \<and>
   db_getChatHistory d rid limit = map chat_of_row (rev (chat_rows_desc d rid limit)) \<and>
   set (chat_rows_desc d rid limit) \<union> set (chat_rows_omitted d rid limit) = set (room_chat_rows d rid) \<and>
   (\<forall>q \<in> set (chat_rows_desc d rid limit). \<forall>r \<in> set (chat_rows_omitted d rid limit).
      cm_timestamp r \<le> cm_timestamp q)"
proof -
  let ?xs = "sort_key (\<lambda>r. - cm_timestamp r) (room_chat_rows d rid)"
  have s: "sorted (map (\<lambda>r. - cm_timestamp r) ?xs)" by simp
  have t: "chat_rows_desc d rid limit = take limit ?xs"
    and o: "chat_rows_omitted d rid limit = drop limit ?xs"
    by (simp_all add: chat_rows_desc_def chat_rows_omitted_def room_chat_rows_def)
  have 1: "length (db_getChatHistory d rid limit) = min limit (length (room_chat_rows d rid))"
    by (simp add: db_getChatHistory_def t min.commute)
  have "sorted (map (\<lambda>r. - cm_timestamp r) (take limit ?xs))"
    using s by (simp add: sorted_wrt_take take_map[symmetric] del: sorted_sort_key)
  then have "sorted (map cm_timestamp (rev (take limit ?xs)))"
    by (rule sorted_desc_rev)
  then have 2: "sorted (map msg_timestamp (db_getChatHistory d rid limit))"
    by (simp add: db_getChatHistory_def t comp_def)
  have "set (take limit ?xs) \<union> set (drop limit ?xs) = set ?xs"
    by (metis append_take_drop_id set_append)
  then have 4: "set (chat_rows_desc d rid limit) \<union> set (chat_rows_omitted d rid limit) =
      set (room_chat_rows d rid)"
    by (simp add: t o)
  have "sorted (map (\<lambda>r. - cm_timestamp r) (take limit ?xs @ drop limit ?xs))"
    using s by (simp del: sorted_sort_key)
  then have 5: "\<forall>q \<in> set (chat_rows_desc d rid limit). \<forall>r \<in> set (chat_rows_omitted d rid limit).
      cm_timestamp r \<le> cm_timestamp q"
    unfolding t o map_append sorted_append by auto
  show ?thesis using 1 2 4 5 by (simp add: db_getChatHistory_def)
qed

theorem chatHistory_bounded_witness:
  "length (db_getChatHistory ex_chat_db ''chat-a'' 1) = 1 \<and>
   map cm_id (chat_rows_desc ex_chat_db ''chat-a'' 1) = [1] \<and>
   map cm_id (chat_rows_omitted ex_chat_db ''chat-a'' 1) = [2] \<and>
   length (room_chat_rows ex_chat_db ''chat-a'') = 2"
  using chatHistory_bounded [of ex_chat_db "''chat-a''" 1]
  by (simp add: ex_chat_db_def db_defs chat_rows_omitted_def room_chat_rows_def)

text \<open>
  C9 as stated fails on equal timestamps. Two messages are stored at the same
  millisecond, with ids 1 and 2. The history lists id 2 before id 1, and with limit 1
  it returns id 1, not the later id 2.
\<close>

theorem chatHistory_order_counterexample:
  "map cm_id (rev (chat_rows_desc ex_chat_db ''chat-a'' 2)) = [2, 1] \<and>
   map cm_timestamp (rev (chat_rows_desc ex_chat_db ''chat-a'' 2)) = [100, 100] \<and>
   map cm_id (rev (chat_rows_desc ex_chat_db ''chat-a'' 1)) = [1] \<and>
   map msg_playerName (db_getChatHistory ex_chat_db ''chat-a'' 2) = [''Bob'', ''Ann'']"
  by (simp add: ex_chat_db_def db_defs)

text \<open>
  C10, as amended. Let a join or rejoin be rejected (the room is unknown, or it is
  full), and let the room id and the player id it carried be non-empty. The connection
  is answered with one error message and the rejected join adds nobody to any room,
  but the connection has recorded the ids. A draw that follows from the same connection
  is persisted as a drawing event of that room under that player id and sent to the
  room's other open players; a chat message that follows, with a text that passes the
  validation, is persisted and sent to all the room's open players.
\<close>

theorem rejected_join_still_writes:
  assumes "joining_player uuid c m = Some (rid, p)"
    and "join_rejected now rid p s"
    and "handleMessage now uuid c m s = (c', s', out)"
    and "rid \<noteq> []" and "pl_playerId p \<noteq> []"
  shows "(\<exists>e. out = [(conn_ws c, ErrorMsg e)]) \<and>
     (\<forall>r. getPlayersInRoom s' r = getPlayersInRoom s r) \<and>
     (case handleDraw now' c' pts col sz tool_opt s' of
        (c'', s'', out') \<Rightarrow>
          drawing_events (db s'') = drawing_events (db s) @
            [\<lparr>de_id = Suc (drawing_seq (db s)), de_room_id = rid, de_player_id = pl_playerId p,
              de_event_type = ''draw'',
              de_event_data = \<lparr>points = pts, color = col, stroke_size = sz,
                                tool = str_or tool_opt ''pen''\<rparr>,
              de_timestamp = now'\<rparr>] \<and>
          out' = broadcastToRoom s rid
            (DrawMsg \<lparr>ev_playerId = pl_playerId p, ev_type = ''draw'',
               ev_data = \<lparr>points = pts, color = col, stroke_size = sz,
                          tool = str_or tool_opt ''pen''\<rparr>,
               ev_timestamp = now'\<rparr>) (Some (pl_playerId p))) \<and>
     (chat_text_ok (Some t) \<longrightarrow>
        (case handleChatMessage now' c' (Some t) s' of
           (c'', s'', out') \<Rightarrow>
             chat_messages (db s'') = chat_messages (db s) @
               [\<lparr>cm_id = Suc (chat_seq (db s)), cm_room_id = rid, cm_player_id = pl_playerId p,
                 cm_player_name = pl_playerName p, cm_message = trim t, cm_timestamp = now'\<rparr>] \<and>
             out' = broadcastToRoom s rid
               (ChatMsg \<lparr>msg_playerId = pl_playerId p, msg_playerName = pl_playerName p,
                  msg_text = trim t, msg_timestamp = now'\<rparr>) None))"
proof -
  note r = rejected_join_records [OF assms(1,2,3)]
  then have c': "c' = c\<lparr>playerId := Some (pl_playerId p), playerName := Some (pl_playerName p),
               currentRoomId := Some rid\<rparr>" by blast
  have att: "attached c' = Some (rid, pl_playerId p, pl_playerName p)"
    unfolding c' using assms(4,5) by (rule attached_recorded)
  have same: "db s' = db s" "open_ws s' = open_ws s" "getPlayersInRoom s' rid = getPlayersInRoom s rid"
    using r by simp_all
  have bc: "\<And>msg ex. broadcastToRoom s' rid msg ex = broadcastToRoom s rid msg ex"
    using same by (intro broadcastToRoom_cong) simp_all
  have out: "\<exists>e. out = [(conn_ws c, ErrorMsg e)]"
    and pl: "\<forall>r. getPlayersInRoom s' r = getPlayersInRoom s r"
    using r by blast+
  show ?thesis
    using out pl same(1)
    by (simp add: handleDraw_effect [OF att] handleChatMessage_accepts [OF att]
        addDrawingEvent_rows addChatMessage_rows bc)
qed

theorem rejected_join_still_writes_witness:
  "joining_player ''uuid-1'' (new_conn 5) (Join ''chat-a'' (Some ''e'') None)
     = Some (''chat-a'', ex_player ''e'' 5) \<and>
   join_rejected 1007 ''chat-a'' (ex_player ''e'' 5) ex_full_room \<and>
   snd (snd (handleMessage 1007 ''uuid-1'' (new_conn 5) (Join ''chat-a'' (Some ''e'') None)
      ex_full_room)) = [(5, ErrorMsg ''Room is full'')] \<and>
   map de_player_id (drawing_events (db (fst (snd
      (handleDraw 1008
         (fst (handleMessage 1007 ''uuid-1'' (new_conn 5) (Join ''chat-a'' (Some ''e'') None)
            ex_full_room))
         ''[{x:1,y:1}]'' ''#000000'' ''3'' None
         (fst (snd (handleMessage 1007 ''uuid-1'' (new_conn 5) (Join ''chat-a'' (Some ''e'') None)
            ex_full_room)))))))) = [''e''] \<and>
   map fst (snd (snd
      (handleDraw 1008
         (fst (handleMessage 1007 ''uuid-1'' (new_conn 5) (Join ''chat-a'' (Some ''e'') None)
            ex_full_room))
         ''[{x:1,y:1}]'' ''#000000'' ''3'' None
         (fst (snd (handleMessage 1007 ''uuid-1'' (new_conn 5) (Join ''chat-a'' (Some ''e'') None)
            ex_full_room)))))) = [2, 3, 4, 1]"
proof -
  define res where "res = handleMessage 1007 ''uuid-1'' (new_conn 5)
      (Join ''chat-a'' (Some ''e'') None) ex_full_room"
  have j: "joining_player ''uuid-1'' (new_conn 5) (Join ''chat-a'' (Some ''e'') None)
     = Some (''chat-a'', ex_player ''e'' 5)"
    by (simp add: ex_player_def new_conn_def str_or_def)
  have r: "join_rejected 1007 ''chat-a'' (ex_player ''e'' 5) ex_full_room"
    by (simp add: join_rejected_def ex_full_room_def ex_player_def room_defs db_defs)
  have h: "handleMessage 1007 ''uuid-1'' (new_conn 5) (Join ''chat-a'' (Some ''e'') None)
      ex_full_room = (fst res, fst (snd res), snd (snd res))"
    by (simp add: res_def)
  have n: "''chat-a'' \<noteq> []" "pl_playerId (ex_player ''e'' 5) \<noteq> []"
    by (simp_all add: ex_player_def)
  have v: "snd (snd res) = [(5, ErrorMsg ''Room is full'')]"
    unfolding res_def
    by (simp add: ex_full_room_def ex_player_def handler_defs room_defs db_defs)
  show ?thesis
    using j r v
      rejected_join_still_writes [OF j r h n, where now' = 1008 and pts = "''[{x:1,y:1}]''"
        and col = "''#000000''" and sz = "''3''" and tool_opt = None and t = ex_hi]
    unfolding res_def[symmetric]
    by (simp add: ex_full_room_def ex_player_def broadcastToRoom_def getPlayersInRoom_def
        empty_db_def db_createRoom_def split: prod.splits)
qed

text \<open>
  C10 as stated fails for an empty room id. A join whose room id is the empty string is
  rejected as unknown and the connection records the empty id; the draw that follows
  is dropped: nothing is persisted and nothing is sent.
\<close>

theorem rejected_join_counterexample:
  "handleMessage 10 ''uuid-1'' (new_conn 5) (Join [] None None) ex_lobby
     = (ex_stranger, ex_lobby, [(5, ErrorMsg ''Room does not exist'')]) \<and>
   handleDraw 11 ex_stranger ''[{x:1,y:1}]'' ''#000000'' ''3'' None ex_lobby
     = (ex_stranger, ex_lobby, [])"
  by (simp add: ex_stranger_def ex_lobby_def new_conn_def handleJoin_def handleDraw_def
      attached_def str_or_def roomExists_def db_defs Let_def)

end
